theory Spec2Isabelle
  imports Main "HOL-Library.Word"
begin

section \<open>Data model\<close>

text \<open>
  The sources hold three variants of the torrent creation job tracker:
  \<^item> the manager whose success and failure callbacks are routed through \<open>getTask\<close>
    (first \<open>torrentcreationmanager.cpp\<close>; its definitions keep the source's names);
  \<^item> the manager whose callbacks are wired to the task object and whose registry is a
    key-value container (second \<open>torrentcreationmanager.cpp\<close>; suffix \<open>_v2\<close>);
  \<^item> the web API controller \<open>metafilecontroller.cpp\<close> (prefix \<open>mc_\<close>).
  The headers are not part of the sources, so the field types below are read off the
  member accesses of the three files.
\<close>

type_synonym QString = string
type_synonym QByteArray = "8 word list"

text \<open>A \<open>Path\<close> is used through \<open>isEmpty()\<close> and \<open>toString()\<close> only.\<close>

type_synonym Path = QString

datatype TorrentFormat = V1 | V2 | Hybrid

text \<open>
  \<open>BitTorrent::TorrentCreatorParams\<close>: every field \<open>createAction\<close> assigns. The
  format selector exists under \<open>QBT_USES_LIBTORRENT2\<close>, the two alignment fields
  otherwise; the record carries both groups.
\<close>

record TorrentCreatorParams =
  isPrivate :: bool
  torrentFormat :: TorrentFormat
  isAlignmentOptimized :: bool
  paddedFileSizeLimit :: int
  pieceSize :: int
  inputPath :: Path
  savePath :: Path
  comment :: QString
  source :: QString
  trackers :: "QString list"
  urlSeeds :: "QString list"

text \<open>\<open>BitTorrent::TorrentCreatorResult\<close>: \<open>content\<close>, \<open>path\<close> and \<open>pieceSize\<close>.\<close>

record TorrentCreatorResult =
  result_content :: QByteArray
  result_path :: Path
  result_pieceSize :: int

text \<open>
  The members of \<open>TorrentCreationTask\<close> shared by both manager variants; the first
  variant adds \<open>m_id\<close>.
\<close>

record TorrentCreationTask =
  m_params :: TorrentCreatorParams
  m_started :: bool
  m_done :: bool
  m_progress :: int
  m_errorMsg :: QString
  m_result :: TorrentCreatorResult

record TorrentCreationTaskById = TorrentCreationTask +
  m_id :: QString

text \<open>
  The file system as \<open>content()\<close> sees it: \<open>None\<close> when \<open>QFile::open\<close> fails,
  otherwise what \<open>readAll()\<close> returns.
\<close>

type_synonym FileSystem = "QString \<Rightarrow> QByteArray option"

section \<open>The task\<close>

text \<open>
  Modelled from the spec: the default member initialisers of the class declaration
  (\<open>torrentcreationmanager.h\<close>, not in the sources). The constructor's initialiser
  list sets \<open>m_id\<close> and \<open>m_params\<close> only; the spec gives \<open>started=false, done=false\<close>
  for a fresh task, a progress percentage, and no error message or result before the
  terminal event. The default result's piece size is read by no query.
\<close>

definition TorrentCreationTask :: "QString \<Rightarrow> TorrentCreatorParams \<Rightarrow> TorrentCreationTaskById" where
  "TorrentCreationTask ident params =
     \<lparr>m_params = params, m_started = False, m_done = False, m_progress = 0,
      m_errorMsg = [],
      m_result = \<lparr>result_content = [], result_path = [], result_pieceSize = 0\<rparr>,
      m_id = ident\<rparr>"

definition handleProgress :: "int \<Rightarrow> 'a TorrentCreationTask_scheme \<Rightarrow> 'a TorrentCreationTask_scheme" where
  "handleProgress progress t = t\<lparr>m_started := True, m_progress := progress\<rparr>"

definition handleFailure :: "QString \<Rightarrow> 'a TorrentCreationTask_scheme \<Rightarrow> 'a TorrentCreationTask_scheme" where
  "handleFailure msg t = t\<lparr>m_started := True, m_done := True, m_errorMsg := msg\<rparr>"

definition handleSuccess :: "TorrentCreatorResult \<Rightarrow> 'a TorrentCreationTask_scheme \<Rightarrow> 'a TorrentCreationTask_scheme" where
  "handleSuccess result t =
     t\<lparr>m_started := True, m_done := True, m_result := result,
       m_params := (m_params t)\<lparr>pieceSize := result_pieceSize result\<rparr>\<rparr>"

definition isDoneWithSuccess :: "'a TorrentCreationTask_scheme \<Rightarrow> bool" where
  "isDoneWithSuccess t =
     (m_done t \<and> (result_content (m_result t) \<noteq> [] \<or> result_path (m_result t) \<noteq> []))"

definition isDoneWithError :: "'a TorrentCreationTask_scheme \<Rightarrow> bool" where
  "isDoneWithError t = (m_done t \<and> m_errorMsg t \<noteq> [])"

definition isRunning :: "'a TorrentCreationTask_scheme \<Rightarrow> bool" where
  "isRunning t = (m_started t \<and> \<not> m_done t)"

definition task_id :: "TorrentCreationTaskById \<Rightarrow> QString" where
  "task_id t = m_id t"

definition content :: "FileSystem \<Rightarrow> 'a TorrentCreationTask_scheme \<Rightarrow> QByteArray" where
  "content fs t =
     (if \<not> isDoneWithSuccess t then []
      else if result_content (m_result t) \<noteq> [] then result_content (m_result t)
      else (case fs (result_path (m_result t)) of
              None \<Rightarrow> []
            | Some bytes \<Rightarrow> bytes))"

definition params :: "'a TorrentCreationTask_scheme \<Rightarrow> TorrentCreatorParams" where
  "params t = m_params t"

definition progress :: "'a TorrentCreationTask_scheme \<Rightarrow> int" where
  "progress t = m_progress t"

definition errorMsg :: "'a TorrentCreationTask_scheme \<Rightarrow> QString" where
  "errorMsg t = m_errorMsg t"

text \<open>
  The three signals of a \<open>TorrentCreator\<close> (\<open>updateProgress\<close>, \<open>creationFailure\<close>,
  \<open>creationSuccess\<close>) and their delivery to the slots they are connected to.
\<close>

datatype event = UpdateProgress int | CreationFailure QString | CreationSuccess TorrentCreatorResult

fun deliver :: "event \<Rightarrow> 'a TorrentCreationTask_scheme \<Rightarrow> 'a TorrentCreationTask_scheme" where
  "deliver (UpdateProgress p) t = handleProgress p t"
| "deliver (CreationFailure msg) t = handleFailure msg t"
| "deliver (CreationSuccess result) t = handleSuccess result t"

fun deliverAll :: "event list \<Rightarrow> 'a TorrentCreationTask_scheme \<Rightarrow> 'a TorrentCreationTask_scheme" where
  "deliverAll [] t = t"
| "deliverAll (e # es) t = deliverAll es (deliver e t)"

section \<open>The manager that routes outcomes through \<open>getTask\<close>\<close>

text \<open>
  What the manager does to the world outside the registry, in the order it happens: a
  creator started on the thread pool (with the values its callbacks capture), the
  \<open>destroyed\<close> signal of a deleted task, which is connected to the creator's
  \<open>requestInterruption\<close>, and \<open>result.startSeeding(false)\<close>.
\<close>

datatype effect =
  StartCreator QString TorrentCreatorParams bool
| RequestInterruption QString
| StartSeeding TorrentCreatorResult

text \<open>
  \<open>m_tasks\<close> is a multi-index container of task pointers whose index 0 is keyed by
  \<open>id()\<close>. Its declaration is not in the sources: the model is the list of the tasks
  it holds, \<open>find\<close> returns the first task with the id, \<open>insert\<close> appends and
  \<open>erase\<close> removes the element \<open>find\<close> returned. Whether the index itself refuses a
  second task with the same id is not assumed.
\<close>

record TorrentCreationManager =
  m_tasks :: "TorrentCreationTaskById list"
  effects :: "effect list"

definition tasksById_contains :: "TorrentCreationManager \<Rightarrow> QString \<Rightarrow> bool" where
  "tasksById_contains mgr ident = (ident \<in> set (map task_id (m_tasks mgr)))"

fun tasksById_erase :: "QString \<Rightarrow> TorrentCreationTaskById list \<Rightarrow> TorrentCreationTaskById list" where
  "tasksById_erase ident [] = []"
| "tasksById_erase ident (t # ts) =
     (if task_id t = ident then ts else t # tasksById_erase ident ts)"

text \<open>\<open>task->handle...\<close> through the pointer \<open>getTask\<close> returned: the first task with the id.\<close>

fun tasksById_modify ::
  "QString \<Rightarrow> (TorrentCreationTaskById \<Rightarrow> TorrentCreationTaskById) \<Rightarrow>
   TorrentCreationTaskById list \<Rightarrow> TorrentCreationTaskById list" where
  "tasksById_modify ident f [] = []"
| "tasksById_modify ident f (t # ts) =
     (if task_id t = ident then f t # ts else t # tasksById_modify ident f ts)"

text \<open>
  The id loop of \<open>createTask\<close> and \<open>createAction\<close>: \<open>createUuid k\<close> is the \<open>k\<close>-th
  string \<open>QUuid::createUuid().toString(QUuid::WithoutBraces)\<close> yields, \<open>n\<close> counts the
  draws made so far. The loop has no bound in the source, so it need not return.
\<close>

partial_function (option) taskId_loop ::
  "(nat \<Rightarrow> QString) \<Rightarrow> (QString \<Rightarrow> bool) \<Rightarrow> QString \<Rightarrow> nat \<Rightarrow> (QString \<times> nat) option" where
  "taskId_loop createUuid contains taskId n =
     (if contains taskId then taskId_loop createUuid contains (createUuid n) (Suc n)
      else Some (taskId, n))"

definition getTask :: "TorrentCreationManager \<Rightarrow> QString \<Rightarrow> TorrentCreationTaskById option" where
  "getTask mgr ident = find (\<lambda>t. task_id t = ident) (m_tasks mgr)"

definition onSuccess ::
  "bool \<Rightarrow> QString \<Rightarrow> TorrentCreatorResult \<Rightarrow> TorrentCreationManager \<Rightarrow> TorrentCreationManager" where
  "onSuccess startSeeding taskId result mgr =
     (let mgr1 = (if startSeeding then mgr\<lparr>effects := effects mgr @ [StartSeeding result]\<rparr> else mgr)
      in case getTask mgr1 taskId of
           None \<Rightarrow> mgr1
         | Some task \<Rightarrow>
             mgr1\<lparr>m_tasks := tasksById_modify taskId (handleSuccess result) (m_tasks mgr1)\<rparr>)"

definition onFailure :: "QString \<Rightarrow> QString \<Rightarrow> TorrentCreationManager \<Rightarrow> TorrentCreationManager" where
  "onFailure taskId msg mgr =
     (case getTask mgr taskId of
        None \<Rightarrow> mgr
      | Some task \<Rightarrow> mgr\<lparr>m_tasks := tasksById_modify taskId (handleFailure msg) (m_tasks mgr)\<rparr>)"

text \<open>
  \<open>createTask\<close> returns the id, the number of uuids drawn and the manager afterwards;
  \<open>None\<close> when the id loop does not end.
\<close>

definition createTask ::
  "(nat \<Rightarrow> QString) \<Rightarrow> nat \<Rightarrow> TorrentCreatorParams \<Rightarrow> bool \<Rightarrow> TorrentCreationManager \<Rightarrow>
   (QString \<times> nat \<times> TorrentCreationManager) option" where
  "createTask createUuid n creatorParams startSeeding mgr =
     (case taskId_loop createUuid (tasksById_contains mgr) (createUuid n) (Suc n) of
        None \<Rightarrow> None
      | Some (taskId, n') \<Rightarrow>
          Some (taskId, n',
            mgr\<lparr>m_tasks := m_tasks mgr @ [TorrentCreationTask taskId creatorParams],
                effects := effects mgr @ [StartCreator taskId creatorParams startSeeding]\<rparr>))"

definition taskIds :: "TorrentCreationManager \<Rightarrow> QString list" where
  "taskIds mgr = map task_id (m_tasks mgr)"

definition deleteTask :: "QString \<Rightarrow> TorrentCreationManager \<Rightarrow> bool \<times> TorrentCreationManager" where
  "deleteTask ident mgr =
     (case getTask mgr ident of
        None \<Rightarrow> (False, mgr)
      | Some task \<Rightarrow>
          (True, mgr\<lparr>m_tasks := tasksById_erase ident (m_tasks mgr),
                     effects := effects mgr @ [RequestInterruption ident]\<rparr>))"

text \<open>A run of \<open>createTask\<close> calls, one per parameter set, collecting the returned ids.\<close>

fun createTasks ::
  "(nat \<Rightarrow> QString) \<Rightarrow> nat \<Rightarrow> (TorrentCreatorParams \<times> bool) list \<Rightarrow> TorrentCreationManager \<Rightarrow>
   (QString list \<times> nat \<times> TorrentCreationManager) option" where
  "createTasks createUuid n [] mgr = Some ([], n, mgr)"
| "createTasks createUuid n ((creatorParams, startSeeding) # rest) mgr =
     (case createTask createUuid n creatorParams startSeeding mgr of
        None \<Rightarrow> None
      | Some (taskId, n', mgr') \<Rightarrow>
          (case createTasks createUuid n' rest mgr' of
             None \<Rightarrow> None
           | Some (ids, n'', mgr'') \<Rightarrow> Some (taskId # ids, n'', mgr'')))"

section \<open>The manager that wires outcomes to the task object\<close>

text \<open>\<open>m_tasks\<close> is used through \<open>contains\<close>, \<open>operator[]\<close>, \<open>find\<close>, \<open>erase\<close> and \<open>keys\<close>: a map.\<close>

datatype effect_v2 =
  StartCreator_v2 QString TorrentCreatorParams
| RequestInterruption_v2 QString

record TorrentCreationManager_v2 =
  m_tasks_v2 :: "QString \<rightharpoonup> TorrentCreationTask"
  effects_v2 :: "effect_v2 list"

text \<open>
  Modelled from the spec: the default member initialisers of the class declaration, as
  for the first variant; this constructor's initialiser list sets \<open>m_params\<close> only.
\<close>

definition TorrentCreationTask_v2 :: "TorrentCreatorParams \<Rightarrow> TorrentCreationTask" where
  "TorrentCreationTask_v2 creatorParams =
     \<lparr>m_params = creatorParams, m_started = False, m_done = False, m_progress = 0,
      m_errorMsg = [],
      m_result = \<lparr>result_content = [], result_path = [], result_pieceSize = 0\<rparr>\<rparr>"

definition createTask_v2 ::
  "(nat \<Rightarrow> QString) \<Rightarrow> nat \<Rightarrow> TorrentCreatorParams \<Rightarrow> TorrentCreationManager_v2 \<Rightarrow>
   (QString \<times> nat \<times> TorrentCreationManager_v2) option" where
  "createTask_v2 createUuid n creatorParams mgr =
     (case taskId_loop createUuid (\<lambda>k. m_tasks_v2 mgr k \<noteq> None) (createUuid n) (Suc n) of
        None \<Rightarrow> None
      | Some (taskId, n') \<Rightarrow>
          Some (taskId, n',
            mgr\<lparr>m_tasks_v2 := (m_tasks_v2 mgr)(taskId \<mapsto> TorrentCreationTask_v2 creatorParams),
                effects_v2 := effects_v2 mgr @ [StartCreator_v2 taskId creatorParams]\<rparr>))"

definition getTask_v2 :: "TorrentCreationManager_v2 \<Rightarrow> QString \<Rightarrow> TorrentCreationTask option" where
  "getTask_v2 mgr ident = m_tasks_v2 mgr ident"

definition deleteTask_v2 :: "QString \<Rightarrow> TorrentCreationManager_v2 \<Rightarrow> bool \<times> TorrentCreationManager_v2" where
  "deleteTask_v2 ident mgr =
     (case m_tasks_v2 mgr ident of
        None \<Rightarrow> (False, mgr)
      | Some task \<Rightarrow>
          (True, mgr\<lparr>m_tasks_v2 := (m_tasks_v2 mgr)(ident := None),
                     effects_v2 := effects_v2 mgr @ [RequestInterruption_v2 ident]\<rparr>))"

section \<open>The web API controller\<close>

record mc_TorrentCreationTask =
  mc_m_params :: TorrentCreatorParams
  mc_m_started :: bool
  mc_m_done :: bool
  mc_m_progress :: int
  mc_m_errorMsg :: QString
  mc_m_content :: QByteArray

text \<open>
  Modelled from the spec: the default member initialisers of the controller's task class
  (\<open>metafilecontroller.h\<close>, not in the sources); the constructor's initialiser list
  sets \<open>m_params\<close> only. As for the manager's task, the spec gives
  \<open>started=false, done=false\<close>, and no error message or content before the terminal event.
\<close>

definition mc_TorrentCreationTask :: "TorrentCreatorParams \<Rightarrow> mc_TorrentCreationTask" where
  "mc_TorrentCreationTask creatorParams =
     \<lparr>mc_m_params = creatorParams, mc_m_started = False, mc_m_done = False,
      mc_m_progress = 0, mc_m_errorMsg = [], mc_m_content = []\<rparr>"

definition mc_handleProgress :: "int \<Rightarrow> mc_TorrentCreationTask \<Rightarrow> mc_TorrentCreationTask" where
  "mc_handleProgress p t = t\<lparr>mc_m_started := True, mc_m_progress := p\<rparr>"

definition mc_handleFailure :: "QString \<Rightarrow> mc_TorrentCreationTask \<Rightarrow> mc_TorrentCreationTask" where
  "mc_handleFailure msg t = t\<lparr>mc_m_started := True, mc_m_done := True, mc_m_errorMsg := msg\<rparr>"

definition mc_handleSuccess :: "TorrentCreatorResult \<Rightarrow> mc_TorrentCreationTask \<Rightarrow> mc_TorrentCreationTask" where
  "mc_handleSuccess result t =
     t\<lparr>mc_m_started := True, mc_m_done := True, mc_m_content := result_content result,
       mc_m_params := (mc_m_params t)\<lparr>pieceSize := result_pieceSize result\<rparr>\<rparr>"

definition mc_isDoneWithSuccess :: "mc_TorrentCreationTask \<Rightarrow> bool" where
  "mc_isDoneWithSuccess t = (mc_m_done t \<and> mc_m_content t \<noteq> [])"

definition mc_isDoneWithError :: "mc_TorrentCreationTask \<Rightarrow> bool" where
  "mc_isDoneWithError t = (mc_m_done t \<and> (mc_m_errorMsg t \<noteq> [] \<or> mc_m_content t = []))"

definition mc_isRunning :: "mc_TorrentCreationTask \<Rightarrow> bool" where
  "mc_isRunning t = (mc_m_started t \<and> \<not> mc_m_done t)"

definition mc_content :: "mc_TorrentCreationTask \<Rightarrow> QByteArray" where
  "mc_content t = mc_m_content t"

definition mc_params :: "mc_TorrentCreationTask \<Rightarrow> TorrentCreatorParams" where
  "mc_params t = mc_m_params t"

definition mc_progress :: "mc_TorrentCreationTask \<Rightarrow> int" where
  "mc_progress t = mc_m_progress t"

definition mc_errorMsg :: "mc_TorrentCreationTask \<Rightarrow> QString" where
  "mc_errorMsg t = mc_m_errorMsg t"

fun mc_deliver :: "event \<Rightarrow> mc_TorrentCreationTask \<Rightarrow> mc_TorrentCreationTask" where
  "mc_deliver (UpdateProgress p) t = mc_handleProgress p t"
| "mc_deliver (CreationFailure msg) t = mc_handleFailure msg t"
| "mc_deliver (CreationSuccess result) t = mc_handleSuccess result t"

fun mc_deliverAll :: "event list \<Rightarrow> mc_TorrentCreationTask \<Rightarrow> mc_TorrentCreationTask" where
  "mc_deliverAll [] t = t"
| "mc_deliverAll (e # es) t = mc_deliverAll es (mc_deliver e t)"

definition KEY_COMMENT :: QString where "KEY_COMMENT = ''comment''"
definition KEY_FORMAT :: QString where "KEY_FORMAT = ''format''"
definition KEY_ID :: QString where "KEY_ID = ''id''"
definition KEY_INPUT_PATH :: QString where "KEY_INPUT_PATH = ''inputPath''"
definition KEY_OPTIMIZE_ALIGNMENT :: QString where "KEY_OPTIMIZE_ALIGNMENT = ''optimizeAlignment''"
definition KEY_PADDED_FILE_SIZE_LIMIT :: QString where "KEY_PADDED_FILE_SIZE_LIMIT = ''paddedFileSizeLimit''"
definition KEY_PIECE_SIZE :: QString where "KEY_PIECE_SIZE = ''pieceSize''"
definition KEY_PRIVATE :: QString where "KEY_PRIVATE = ''private''"
definition KEY_SAVE_PATH :: QString where "KEY_SAVE_PATH = ''savePath''"
definition KEY_SOURCE :: QString where "KEY_SOURCE = ''source''"
definition KEY_TRACKERS :: QString where "KEY_TRACKERS = ''trackers''"
definition KEY_URL_SEEDS :: QString where "KEY_URL_SEEDS = ''urlSeeds''"

text \<open>
  What \<open>createAction\<close> calls and the sources do not hold: the build flag, the parsers of
  \<open>Utils::String\<close>, \<open>QString::toLower\<close>, the \<open>Path\<close> constructor, \<open>requireParams\<close>
  of the controller's base class (\<open>True\<close> when it does not throw) and the
  default-constructed parameter structure.
\<close>

record Externals =
  QBT_USES_LIBTORRENT2 :: bool
  parseBool :: "QString \<Rightarrow> bool option"
  parseInt :: "QString \<Rightarrow> int option"
  toLower :: "QString \<Rightarrow> QString"
  toPath :: "QString \<Rightarrow> Path"
  requireParams :: "(QString \<rightharpoonup> QString) \<Rightarrow> QString list \<Rightarrow> bool"
  defaultParams :: TorrentCreatorParams

text \<open>\<open>params()[key]\<close> on the request's constant map: the empty string for a missing key.\<close>

definition request_param :: "(QString \<rightharpoonup> QString) \<Rightarrow> QString \<Rightarrow> QString" where
  "request_param req k = (case req k of None \<Rightarrow> [] | Some v \<Rightarrow> v)"

definition value_or :: "'a option \<Rightarrow> 'a \<Rightarrow> 'a" where
  "value_or v d = (case v of None \<Rightarrow> d | Some x \<Rightarrow> x)"

text \<open>\<open>QString::split(sep)\<close>, which keeps empty parts.\<close>

fun split :: "char \<Rightarrow> QString \<Rightarrow> QString list" where
  "split sep [] = [[]]"
| "split sep (c # cs) =
     (if c = sep then [] # split sep cs
      else (case split sep cs of
              [] \<Rightarrow> [[c]]
            | part # parts \<Rightarrow> (c # part) # parts))"

text \<open>The parameter structure \<open>createAction\<close> fills from the request.\<close>

definition createTorrentParams :: "Externals \<Rightarrow> (QString \<rightharpoonup> QString) \<Rightarrow> TorrentCreatorParams" where
  "createTorrentParams ext req =
     (let p1 = (defaultParams ext)
                 \<lparr>isPrivate := value_or (parseBool ext (request_param req KEY_PRIVATE)) False\<rparr>;
          p2 = (if QBT_USES_LIBTORRENT2 ext
                then (let format = toLower ext (request_param req KEY_FORMAT)
                      in if format = ''v1'' then p1\<lparr>torrentFormat := V1\<rparr>
                         else if format = ''v2'' then p1\<lparr>torrentFormat := V2\<rparr>
                         else p1\<lparr>torrentFormat := Hybrid\<rparr>)
                else p1\<lparr>isAlignmentOptimized :=
                          value_or (parseBool ext (request_param req KEY_OPTIMIZE_ALIGNMENT)) True,
                        paddedFileSizeLimit :=
                          value_or (parseInt ext (request_param req KEY_PADDED_FILE_SIZE_LIMIT)) (- 1)\<rparr>)
      in p2\<lparr>pieceSize := value_or (parseInt ext (request_param req KEY_PIECE_SIZE)) 0,
            inputPath := toPath ext (request_param req KEY_INPUT_PATH),
            savePath := toPath ext (request_param req KEY_SAVE_PATH),
            comment := request_param req KEY_COMMENT,
            source := request_param req KEY_COMMENT,
            trackers := split CHR ''|'' (request_param req KEY_TRACKERS),
            urlSeeds := split CHR ''|'' (request_param req KEY_URL_SEEDS)\<rparr>)"

datatype APIError = RequiredParamMissing

datatype mc_effect = mc_StartCreator TorrentCreatorParams

record MetafileController =
  mc_m_tasks :: "QString \<rightharpoonup> mc_TorrentCreationTask"
  mc_effects :: "mc_effect list"

text \<open>
  \<open>createAction\<close>: \<open>None\<close> when the id loop does not end, \<open>Inl\<close> when
  \<open>requireParams\<close> throws, otherwise the id it reports with \<open>setResult\<close>, the number
  of uuids drawn and the controller afterwards.
\<close>

definition createAction ::
  "Externals \<Rightarrow> (nat \<Rightarrow> QString) \<Rightarrow> nat \<Rightarrow> (QString \<rightharpoonup> QString) \<Rightarrow> MetafileController \<Rightarrow>
   (APIError + QString \<times> nat \<times> MetafileController) option" where
  "createAction ext createUuid n req ctl =
     (if \<not> requireParams ext req [''inputPath''] then Some (Inl RequiredParamMissing)
      else
        (let creatorParams = createTorrentParams ext req;
             creationTask = mc_TorrentCreationTask creatorParams
         in case taskId_loop createUuid (\<lambda>k. mc_m_tasks ctl k \<noteq> None) (createUuid n) (Suc n) of
              None \<Rightarrow> None
            | Some (taskId, n') \<Rightarrow>
                Some (Inr (taskId, n',
                  ctl\<lparr>mc_m_tasks := (mc_m_tasks ctl)(taskId \<mapsto> creationTask),
                      mc_effects := mc_effects ctl @ [mc_StartCreator creatorParams]\<rparr>))))"

datatype QJsonValue = JsonString QString | JsonBool bool | JsonInt int | JsonArray "QJsonValue list"

text \<open>The JSON object \<open>statusAction\<close> builds for one task (the body of its loop).\<close>

definition statusAction_taskJson ::
  "Externals \<Rightarrow> QString \<Rightarrow> mc_TorrentCreationTask \<Rightarrow> (QString \<rightharpoonup> QJsonValue)" where
  "statusAction_taskJson ext ident task =
     (let j0 = [KEY_ID \<mapsto> JsonString ident,
                KEY_INPUT_PATH \<mapsto> JsonString (inputPath (mc_params task)),
                KEY_PRIVATE \<mapsto> JsonBool (isPrivate (mc_params task))];
          j1 = (if comment (mc_params task) \<noteq> []
                then j0(KEY_COMMENT \<mapsto> JsonString (comment (mc_params task))) else j0);
          j2 = (if pieceSize (mc_params task) \<noteq> 0
                then j1(KEY_PIECE_SIZE \<mapsto> JsonInt (pieceSize (mc_params task))) else j1);
          j3 = (if savePath (mc_params task) \<noteq> []
                then j2(KEY_SAVE_PATH \<mapsto> JsonString (savePath (mc_params task))) else j2);
          j4 = (if source (mc_params task) \<noteq> []
                then j3(KEY_SOURCE \<mapsto> JsonString (source (mc_params task))) else j3);
          j5 = (if trackers (mc_params task) \<noteq> []
                then j4(KEY_TRACKERS \<mapsto> JsonArray (map JsonString (trackers (mc_params task)))) else j4);
          j6 = (if urlSeeds (mc_params task) \<noteq> []
                then j5(KEY_URL_SEEDS \<mapsto> JsonArray (map JsonString (urlSeeds (mc_params task)))) else j5);
          j7 = (if mc_isDoneWithError task
                then j6(''status'' \<mapsto> JsonString ''Error'',
                        ''error_msg'' \<mapsto> JsonString (mc_errorMsg task))
                else if mc_isDoneWithSuccess task then j6(''status'' \<mapsto> JsonString ''Done'')
                else if mc_isRunning task
                then j6(''status'' \<mapsto> JsonString ''Processing'',
                        ''progress'' \<mapsto> JsonInt (mc_progress task))
                else j6(''status'' \<mapsto> JsonString ''Pending''))
      in if QBT_USES_LIBTORRENT2 ext
         then (case torrentFormat (mc_params task) of
                 V1 \<Rightarrow> j7(KEY_FORMAT \<mapsto> JsonString ''v1'')
               | V2 \<Rightarrow> j7(KEY_FORMAT \<mapsto> JsonString ''v2'')
               | Hybrid \<Rightarrow> j7(KEY_FORMAT \<mapsto> JsonString ''hybrid''))
         else j7(KEY_OPTIMIZE_ALIGNMENT \<mapsto> JsonBool (isAlignmentOptimized (mc_params task)),
                 KEY_PADDED_FILE_SIZE_LIMIT \<mapsto> JsonInt (paddedFileSizeLimit (mc_params task))))"

section \<open>Scenario of the spec\<close>

text \<open>
  The parameters of the spec's first scenario:
  \<open>{inputPath: "/data/movie.mkv", pieceSize: 0, isPrivate: false}\<close>.
\<close>

definition movie_params :: TorrentCreatorParams where
  "movie_params =
     \<lparr>isPrivate = False, torrentFormat = Hybrid, isAlignmentOptimized = True,
      paddedFileSizeLimit = - 1, pieceSize = 0, inputPath = ''/data/movie.mkv'',
      savePath = [], comment = [], source = [], trackers = [], urlSeeds = []\<rparr>"

text \<open>The observable state of a task: what its seven queries return.\<close>

definition observable ::
  "FileSystem \<Rightarrow> 'a TorrentCreationTask_scheme \<Rightarrow>
   int \<times> bool \<times> bool \<times> bool \<times> QString \<times> QByteArray \<times> TorrentCreatorParams" where
  "observable fs t =
     (progress t, isRunning t, isDoneWithSuccess t, isDoneWithError t, errorMsg t,
      content fs t, params t)"

fun isTerminal :: "event \<Rightarrow> bool" where
  "isTerminal (UpdateProgress p) = False"
| "isTerminal (CreationFailure msg) = True"
| "isTerminal (CreationSuccess result) = True"

fun isSuccess :: "event \<Rightarrow> bool" where
  "isSuccess (UpdateProgress p) = False"
| "isSuccess (CreationFailure msg) = False"
| "isSuccess (CreationSuccess result) = True"

section \<open>Lemmas shared by the claims\<close>

lemmas task_defs = handleProgress_def handleFailure_def handleSuccess_def isDoneWithSuccess_def
  isDoneWithError_def isRunning_def content_def params_def progress_def errorMsg_def

lemmas mc_task_defs = mc_handleProgress_def mc_handleFailure_def mc_handleSuccess_def
  mc_isDoneWithSuccess_def mc_isDoneWithError_def mc_isRunning_def mc_content_def mc_params_def
  mc_progress_def mc_errorMsg_def

text \<open>No handler resets \<open>m_done\<close>.\<close>

lemma m_done_deliver: "m_done t \<Longrightarrow> m_done (deliver e t)"
  by (cases e) (simp_all add: task_defs)

lemma m_done_deliverAll: "m_done t \<Longrightarrow> m_done (deliverAll evs t)"
  by (induction evs arbitrary: t) (simp_all add: m_done_deliver)

text \<open>
  A task that is not done has received progress events only, so its result, error
  message and parameters are the ones it started with.
\<close>

lemma not_done_unchanged:
  "\<not> m_done (deliverAll evs t) \<Longrightarrow>
   m_result (deliverAll evs t) = m_result t \<and> m_errorMsg (deliverAll evs t) = m_errorMsg t
   \<and> m_params (deliverAll evs t) = m_params t"
proof (induction evs arbitrary: t)
  case Nil
  then show ?case by simp
next
  case (Cons e evs)
  show ?case
  proof (cases e)
    case (UpdateProgress p)
    with Cons show ?thesis by (simp add: handleProgress_def)
  next
    case (CreationFailure msg)
    then have "m_done (deliverAll (e # evs) t)"
      by (simp add: m_done_deliverAll handleFailure_def)
    with Cons.prems show ?thesis by simp
  next
    case (CreationSuccess r)
    then have "m_done (deliverAll (e # evs) t)"
      by (simp add: m_done_deliverAll handleSuccess_def)
    with Cons.prems show ?thesis by simp
  qed
qed

text \<open>The controller's task holds content only once it is done.\<close>

lemma mc_content_needs_done:
  "mc_m_done t \<or> mc_m_content t = [] \<Longrightarrow>
   mc_m_done (mc_deliverAll evs t) \<or> mc_m_content (mc_deliverAll evs t) = []"
proof (induction evs arbitrary: t)
  case Nil
  then show ?case by simp
next
  case (Cons e evs)
  have "mc_m_done (mc_deliver e t) \<or> mc_m_content (mc_deliver e t) = []"
    using Cons.prems
    by (cases e) (auto simp: mc_handleProgress_def mc_handleFailure_def mc_handleSuccess_def)
  then show ?case using Cons.IH by simp
qed

lemma mc_fresh_content:
  "\<not> mc_m_done (mc_deliverAll evs (mc_TorrentCreationTask P)) \<Longrightarrow>
   mc_m_content (mc_deliverAll evs (mc_TorrentCreationTask P)) = []"
  using mc_content_needs_done [of "mc_TorrentCreationTask P" evs]
  by (simp add: mc_TorrentCreationTask_def)

text \<open>
  The id loop: it stops at a candidate the registry does not hold, retries otherwise, and
  so returns the first candidate of the stream that is not held; whatever it returns is
  not held.
\<close>

lemma taskId_loop_stop: "\<not> c t \<Longrightarrow> taskId_loop g c t n = Some (t, n)"
  by (subst taskId_loop.simps) simp

lemma taskId_loop_retry: "c t \<Longrightarrow> taskId_loop g c t n = taskId_loop g c (g n) (Suc n)"
  by (subst taskId_loop.simps) simp

lemma taskId_loop_first_fresh:
  "\<forall>j<k. c (g (n + j)) \<Longrightarrow> \<not> c (g (n + k)) \<Longrightarrow>
   taskId_loop g c (g n) (Suc n) = Some (g (n + k), Suc (n + k))"
proof (induction k arbitrary: n)
  case 0
  then show ?case by (simp add: taskId_loop_stop)
next
  case (Suc k)
  from Suc.prems(1) have c0: "c (g n)" by (metis add.right_neutral zero_less_Suc)
  have "\<forall>j<k. c (g (Suc n + j))"
  proof (intro allI impI)
    fix j assume "j < k"
    then have "Suc j < Suc k" by simp
    with Suc.prems(1) have "c (g (n + Suc j))" by blast
    then show "c (g (Suc n + j))" by simp
  qed
  moreover from Suc.prems(2) have "\<not> c (g (Suc n + k))" by simp
  ultimately have "taskId_loop g c (g (Suc n)) (Suc (Suc n)) = Some (g (Suc n + k), Suc (Suc n + k))"
    by (rule Suc.IH)
  with c0 show ?case by (simp add: taskId_loop_retry)
qed

lemma taskId_loop_Some:
  assumes a: "taskId_loop g c t n = Some y"
  shows "\<not> c (fst y) \<and> n \<le> snd y"
proof (rule taskId_loop.raw_induct [where P = "\<lambda>g c t n y. \<not> c (fst y) \<and> n \<le> snd y", OF _ a])
  fix loop :: "(nat \<Rightarrow> QString) \<Rightarrow> (QString \<Rightarrow> bool) \<Rightarrow> QString \<Rightarrow> nat \<Rightarrow> (QString \<times> nat) option"
  fix g c t n y
  assume ih: "\<And>g c t n y. loop g c t n = Some y \<Longrightarrow> \<not> c (fst y) \<and> n \<le> snd y"
    and eq: "(if c t then loop g c (g n) (Suc n) else Some (t, n)) = Some y"
  show "\<not> c (fst y) \<and> n \<le> snd y"
  proof (cases "c t")
    case True
    with eq have "loop g c (g n) (Suc n) = Some y" by simp
    then have "\<not> c (fst y) \<and> Suc n \<le> snd y" by (rule ih)
    then show ?thesis by simp
  next
    case False
    with eq show ?thesis by auto
  qed
qed


lemma getTask_effects [simp]: "getTask (mgr\<lparr>effects := es\<rparr>) ident = getTask mgr ident"
  by (simp add: getTask_def)

lemma getTask_None_iff: "getTask mgr ident = None \<longleftrightarrow> ident \<notin> set (taskIds mgr)"
  by (auto simp: getTask_def taskIds_def find_None_iff)

lemma tasksById_contains_iff: "tasksById_contains mgr ident \<longleftrightarrow> ident \<in> set (taskIds mgr)"
  by (simp add: tasksById_contains_def taskIds_def)

lemma task_id_handleFailure [simp]: "task_id (handleFailure msg t) = task_id t"
  by (simp add: task_id_def handleFailure_def)

lemma task_id_handleSuccess [simp]: "task_id (handleSuccess r t) = task_id t"
  by (simp add: task_id_def handleSuccess_def)

lemma ids_tasksById_modify:
  "(\<And>t. task_id (f t) = task_id t) \<Longrightarrow> map task_id (tasksById_modify ident f ts) = map task_id ts"
  by (induction ts) simp_all

lemma ids_tasksById_erase: "map task_id (tasksById_erase ident ts) = remove1 ident (map task_id ts)"
  by (induction ts) simp_all

lemma find_tasksById_erase_other:
  "k \<noteq> ident \<Longrightarrow>
   find (\<lambda>t. task_id t = k) (tasksById_erase ident ts) = find (\<lambda>t. task_id t = k) ts"
  by (induction ts) auto

lemma find_append_new:
  "ident \<notin> set (map task_id ts) \<Longrightarrow> task_id t = ident \<Longrightarrow>
   find (\<lambda>t. task_id t = ident) (ts @ [t]) = Some t"
  by (induction ts) auto

lemma taskIds_onFailure: "taskIds (onFailure ident msg mgr) = taskIds mgr"
  by (simp add: onFailure_def taskIds_def ids_tasksById_modify split: option.splits)

lemma taskIds_onSuccess: "taskIds (onSuccess ss ident r mgr) = taskIds mgr"
  by (simp add: onSuccess_def taskIds_def ids_tasksById_modify Let_def split: option.splits)

lemma taskIds_deleteTask:
  "taskIds (snd (deleteTask ident mgr)) = remove1 ident (taskIds mgr)"
proof (cases "getTask mgr ident")
  case None
  then have "ident \<notin> set (taskIds mgr)" by (simp add: getTask_None_iff)
  then have "remove1 ident (taskIds mgr) = taskIds mgr" by (simp add: remove1_idem)
  with None show ?thesis by (simp add: deleteTask_def)
next
  case (Some t)
  then show ?thesis by (simp add: deleteTask_def taskIds_def ids_tasksById_erase)
qed

lemma createTask_Some:
  assumes "createTask g n P ss mgr = Some (ident, n', mgr')"
  shows "ident \<notin> set (taskIds mgr)" and "taskIds mgr' = taskIds mgr @ [ident]"
    and "getTask mgr' ident = Some (TorrentCreationTask ident P)" and "n < n'"
proof -
  from assms obtain y where y: "taskId_loop g (tasksById_contains mgr) (g n) (Suc n) = Some y"
    and r: "ident = fst y" "n' = snd y"
      "mgr' = mgr\<lparr>m_tasks := m_tasks mgr @ [TorrentCreationTask ident P],
                  effects := effects mgr @ [StartCreator ident P ss]\<rparr>"
    by (auto simp: createTask_def split: option.splits)
  from taskId_loop_Some [OF y] r
  have fresh: "\<not> tasksById_contains mgr ident" and "Suc n \<le> n'" by simp_all
  then show "ident \<notin> set (taskIds mgr)" and "n < n'" by (simp_all add: tasksById_contains_iff)
  have tid: "task_id (TorrentCreationTask ident P) = ident"
    by (simp add: task_id_def TorrentCreationTask_def)
  from r tid show "taskIds mgr' = taskIds mgr @ [ident]" by (simp add: taskIds_def)
  from fresh have "ident \<notin> set (map task_id (m_tasks mgr))" by (simp add: tasksById_contains_def)
  then show "getTask mgr' ident = Some (TorrentCreationTask ident P)"
    using r tid by (simp add: getTask_def find_append_new)
qed

lemma createTasks_Some:
  "createTasks g n reqs mgr = Some (ids, n', mgr') \<Longrightarrow> distinct (taskIds mgr) \<Longrightarrow>
   distinct ids \<and> taskIds mgr' = taskIds mgr @ ids \<and> distinct (taskIds mgr')"
proof (induction reqs arbitrary: n mgr ids)
  case Nil
  then show ?case by simp
next
  case (Cons req reqs)
  obtain P ss where req: "req = (P, ss)" by (cases req)
  from Cons.prems(1) req obtain i n1 mgr1 ids1
    where c1: "createTask g n P ss mgr = Some (i, n1, mgr1)"
      and cs: "createTasks g n1 reqs mgr1 = Some (ids1, n', mgr')"
      and ids: "ids = i # ids1"
    by (auto split: option.splits)
  from createTask_Some(1,2) [OF c1] have f: "i \<notin> set (taskIds mgr)"
    and t1: "taskIds mgr1 = taskIds mgr @ [i]" by simp_all
  with Cons.prems(2) have "distinct (taskIds mgr1)" by simp
  with cs have ih: "distinct ids1 \<and> taskIds mgr' = taskIds mgr1 @ ids1 \<and> distinct (taskIds mgr')"
    by (rule Cons.IH)
  then have d1: "distinct ids1" and d: "distinct (taskIds mgr')" by blast+
  from ih t1 have e: "taskIds mgr' = taskIds mgr @ i # ids1" by simp
  from d have "distinct (taskIds mgr @ i # ids1)" unfolding e .
  then have "i \<notin> set ids1" by simp
  with d1 e d ids show ?case by simp
qed

text \<open>The events leave every field of the parameters but the piece size alone.\<close>

lemma params_deliver_frame:
  "(params (deliver e t))\<lparr>pieceSize := x\<rparr> = (params t)\<lparr>pieceSize := x\<rparr>"
  by (cases e) (simp_all add: task_defs)

lemma params_deliverAll_frame:
  "(params (deliverAll evs t))\<lparr>pieceSize := x\<rparr> = (params t)\<lparr>pieceSize := x\<rparr>"
  by (induction evs arbitrary: t) (simp_all add: params_deliver_frame)

lemma params_deliverAll_no_success:
  "\<forall>e \<in> set evs. \<not> isSuccess e \<Longrightarrow> params (deliverAll evs t) = params t"
proof (induction evs arbitrary: t)
  case Nil
  then show ?case by simp
next
  case (Cons e evs)
  then have "params (deliver e t) = params t" by (cases e) (simp_all add: task_defs)
  with Cons show ?case by simp
qed

text \<open>What a returning \<open>createAction\<close> has done.\<close>

lemma createAction_Some:
  assumes "createAction ext g n req ctl = Some (Inr (ident, n', ctl'))"
  shows "mc_m_tasks ctl ident = None"
    and "mc_m_tasks ctl' = (mc_m_tasks ctl)(ident \<mapsto> mc_TorrentCreationTask (createTorrentParams ext req))"
    and "requireParams ext req [''inputPath'']"
proof -
  from assms show rp: "requireParams ext req [''inputPath'']"
    by (auto simp: createAction_def split: if_splits)
  with assms obtain y where y: "taskId_loop g (\<lambda>k. mc_m_tasks ctl k \<noteq> None) (g n) (Suc n) = Some y"
    and r: "ident = fst y"
      "ctl' = ctl\<lparr>mc_m_tasks := (mc_m_tasks ctl)(ident \<mapsto> mc_TorrentCreationTask (createTorrentParams ext req)),
                  mc_effects := mc_effects ctl @ [mc_StartCreator (createTorrentParams ext req)]\<rparr>"
    by (auto simp: createAction_def Let_def split: option.splits)
  from taskId_loop_Some [OF y] r show "mc_m_tasks ctl ident = None" by simp
  from r show "mc_m_tasks ctl' = (mc_m_tasks ctl)(ident \<mapsto> mc_TorrentCreationTask (createTorrentParams ext req))"
    by simp
qed

text \<open>
  \<open>createTask\<close> and \<open>createAction\<close> return the first candidate that is not held,
  whenever the stream of uuids has one.
\<close>

lemma createTask_first_fresh:
  assumes "\<forall>j<k. tasksById_contains mgr (g (n + j))" and "\<not> tasksById_contains mgr (g (n + k))"
  shows "createTask g n P ss mgr =
     Some (g (n + k), Suc (n + k),
       mgr\<lparr>m_tasks := m_tasks mgr @ [TorrentCreationTask (g (n + k)) P],
           effects := effects mgr @ [StartCreator (g (n + k)) P ss]\<rparr>)"
  using taskId_loop_first_fresh [of k "tasksById_contains mgr" g n] assms
  by (simp add: createTask_def)

lemma createAction_first_fresh:
  assumes "requireParams ext req [''inputPath'']"
    and "\<forall>j<k. mc_m_tasks ctl (g (n + j)) \<noteq> None" and "mc_m_tasks ctl (g (n + k)) = None"
  shows "createAction ext g n req ctl =
     Some (Inr (g (n + k), Suc (n + k),
       ctl\<lparr>mc_m_tasks := (mc_m_tasks ctl)(g (n + k) \<mapsto> mc_TorrentCreationTask (createTorrentParams ext req)),
           mc_effects := mc_effects ctl @ [mc_StartCreator (createTorrentParams ext req)]\<rparr>))"
  using taskId_loop_first_fresh [of k "\<lambda>i. mc_m_tasks ctl i \<noteq> None" g n] assms
  by (simp add: createAction_def Let_def)

text \<open>
  The controller: no event changes the stored source tag, the request's \<open>source\<close>
  parameter does not reach the parameter structure, and the status object echoes the
  stored source tag when it is non-empty.
\<close>

lemma mc_source_deliver: "source (mc_m_params (mc_deliver e t)) = source (mc_m_params t)"
  by (cases e) (simp_all add: mc_handleProgress_def mc_handleFailure_def mc_handleSuccess_def)

lemma mc_source_deliverAll: "source (mc_m_params (mc_deliverAll evs t)) = source (mc_m_params t)"
  by (induction evs arbitrary: t) (simp_all add: mc_source_deliver)

lemmas KEY_defs = KEY_COMMENT_def KEY_FORMAT_def KEY_ID_def KEY_INPUT_PATH_def
  KEY_OPTIMIZE_ALIGNMENT_def KEY_PADDED_FILE_SIZE_LIMIT_def KEY_PIECE_SIZE_def KEY_PRIVATE_def
  KEY_SAVE_PATH_def KEY_SOURCE_def KEY_TRACKERS_def KEY_URL_SEEDS_def

lemma source_createTorrentParams: "source (createTorrentParams ext req) = request_param req KEY_COMMENT"
  by (simp add: createTorrentParams_def Let_def)

lemma request_param_other: "k \<noteq> k' \<Longrightarrow> request_param (req(k' := v)) k = request_param req k"
  by (simp add: request_param_def)

lemma createTorrentParams_ignores_source:
  "createTorrentParams ext (req(KEY_SOURCE := v)) = createTorrentParams ext req"
proof -
  have eqs: "request_param (req(KEY_SOURCE := v)) KEY_PRIVATE = request_param req KEY_PRIVATE"
    "request_param (req(KEY_SOURCE := v)) KEY_FORMAT = request_param req KEY_FORMAT"
    "request_param (req(KEY_SOURCE := v)) KEY_OPTIMIZE_ALIGNMENT = request_param req KEY_OPTIMIZE_ALIGNMENT"
    "request_param (req(KEY_SOURCE := v)) KEY_PADDED_FILE_SIZE_LIMIT = request_param req KEY_PADDED_FILE_SIZE_LIMIT"
    "request_param (req(KEY_SOURCE := v)) KEY_PIECE_SIZE = request_param req KEY_PIECE_SIZE"
    "request_param (req(KEY_SOURCE := v)) KEY_INPUT_PATH = request_param req KEY_INPUT_PATH"
    "request_param (req(KEY_SOURCE := v)) KEY_SAVE_PATH = request_param req KEY_SAVE_PATH"
    "request_param (req(KEY_SOURCE := v)) KEY_COMMENT = request_param req KEY_COMMENT"
    "request_param (req(KEY_SOURCE := v)) KEY_TRACKERS = request_param req KEY_TRACKERS"
    "request_param (req(KEY_SOURCE := v)) KEY_URL_SEEDS = request_param req KEY_URL_SEEDS"
    by (simp_all add: request_param_def KEY_defs)
  show ?thesis unfolding createTorrentParams_def eqs by (rule refl)
qed

lemma Let_lookup:
  assumes "a k = r" and "\<And>j. j k = r \<Longrightarrow> f j k = R"
  shows "(let j = a in f j) k = R"
  using assms by (simp add: Let_def)

lemma taskJson_source:
  "statusAction_taskJson ext ident task KEY_SOURCE =
     (if source (mc_params task) = [] then None else Some (JsonString (source (mc_params task))))"
  unfolding statusAction_taskJson_def
  apply (rule Let_lookup [where r = None])
   apply (simp add: KEY_defs)
  apply (rule Let_lookup [where r = None])
   apply (simp add: KEY_defs)
  apply (rule Let_lookup [where r = None])
   apply (simp add: KEY_defs)
  apply (rule Let_lookup [where r = None])
   apply (simp add: KEY_defs)
  apply (rule Let_lookup [where r = "if source (mc_params task) = [] then None
                                     else Some (JsonString (source (mc_params task)))"])
   apply simp
  apply (rule Let_lookup [where r = "if source (mc_params task) = [] then None
                                     else Some (JsonString (source (mc_params task)))"])
   apply (simp add: KEY_defs)
  apply (rule Let_lookup [where r = "if source (mc_params task) = [] then None
                                     else Some (JsonString (source (mc_params task)))"])
   apply (simp add: KEY_defs)
  apply (rule Let_lookup [where r = "if source (mc_params task) = [] then None
                                     else Some (JsonString (source (mc_params task)))"])
   apply (simp add: KEY_defs)
  apply (simp add: KEY_defs split: TorrentFormat.split)
  done

section \<open>Events after the terminal event\<close>

text \<open>
  Claim C1 as stated does not hold: the handlers have no guard on \<open>m_done\<close>. A task
  that has failed is done, and a progress event delivered afterwards changes what
  \<open>progress()\<close> returns.
\<close>

theorem late_progress_changes_progress:
  "m_done (deliver (CreationFailure ''input path does not exist'')
             (TorrentCreationTask ''t1'' movie_params))
   \<and> progress (deliver (UpdateProgress 50)
        (deliver (CreationFailure ''input path does not exist'')
           (TorrentCreationTask ''t1'' movie_params)))
     \<noteq> progress (deliver (CreationFailure ''input path does not exist'')
           (TorrentCreationTask ''t1'' movie_params))"
  by (simp add: task_defs TorrentCreationTask_def)

text \<open>
  Claim C1, amended: once a terminal event has been delivered the task stays terminal
  under every further event sequence (\<open>m_done\<close> stays true, \<open>isRunning()\<close> stays
  false), and each further event changes only what its handler writes. A progress event
  replaces \<open>progress()\<close> and no other observable; a failure event replaces \<open>errorMsg()\<close>,
  makes \<open>isDoneWithError()\<close> true exactly when the new message is non-empty, and
  changes no other observable; a success event leaves \<open>progress()\<close>, \<open>isRunning()\<close>,
  \<open>isDoneWithError()\<close> and \<open>errorMsg()\<close> unchanged and writes the piece size into
  \<open>params()\<close>.
\<close>

theorem events_after_terminal:
  assumes "isTerminal e" and "t = deliver e t0"
  shows "m_done (deliverAll evs t) \<and> \<not> isRunning (deliverAll evs t)
    \<and> observable fs (deliver (UpdateProgress p) t)
        = (p, isRunning t, isDoneWithSuccess t, isDoneWithError t, errorMsg t, content fs t, params t)
    \<and> progress (deliver (CreationFailure msg) t) = progress t
    \<and> isRunning (deliver (CreationFailure msg) t) = isRunning t
    \<and> isDoneWithSuccess (deliver (CreationFailure msg) t) = isDoneWithSuccess t
    \<and> content fs (deliver (CreationFailure msg) t) = content fs t
    \<and> params (deliver (CreationFailure msg) t) = params t
    \<and> errorMsg (deliver (CreationFailure msg) t) = msg
    \<and> isDoneWithError (deliver (CreationFailure msg) t) = (msg \<noteq> [])
    \<and> progress (deliver (CreationSuccess r) t) = progress t
    \<and> isRunning (deliver (CreationSuccess r) t) = isRunning t
    \<and> isDoneWithError (deliver (CreationSuccess r) t) = isDoneWithError t
    \<and> errorMsg (deliver (CreationSuccess r) t) = errorMsg t
    \<and> params (deliver (CreationSuccess r) t) = (params t)\<lparr>pieceSize := result_pieceSize r\<rparr>"
proof -
  from assms have sd: "m_started t \<and> m_done t"
    by (cases e) (simp_all add: handleFailure_def handleSuccess_def)
  then have "m_done (deliverAll evs t)" by (simp add: m_done_deliverAll)
  moreover from this have "\<not> isRunning (deliverAll evs t)" by (simp add: isRunning_def)
  moreover from sd have "observable fs (deliver (UpdateProgress p) t)
        = (p, isRunning t, isDoneWithSuccess t, isDoneWithError t, errorMsg t, content fs t, params t)"
    by (simp add: observable_def task_defs)
  moreover from sd have "progress (deliver (CreationFailure msg) t) = progress t
    \<and> isRunning (deliver (CreationFailure msg) t) = isRunning t
    \<and> isDoneWithSuccess (deliver (CreationFailure msg) t) = isDoneWithSuccess t
    \<and> content fs (deliver (CreationFailure msg) t) = content fs t
    \<and> params (deliver (CreationFailure msg) t) = params t
    \<and> errorMsg (deliver (CreationFailure msg) t) = msg
    \<and> isDoneWithError (deliver (CreationFailure msg) t) = (msg \<noteq> [])"
    by (simp add: task_defs)
  moreover from sd have "progress (deliver (CreationSuccess r) t) = progress t
    \<and> isRunning (deliver (CreationSuccess r) t) = isRunning t
    \<and> isDoneWithError (deliver (CreationSuccess r) t) = isDoneWithError t
    \<and> errorMsg (deliver (CreationSuccess r) t) = errorMsg t
    \<and> params (deliver (CreationSuccess r) t) = (params t)\<lparr>pieceSize := result_pieceSize r\<rparr>"
    by (simp add: task_defs)
  ultimately show ?thesis by blast
qed

theorem events_after_terminal_witness:
  "isTerminal (CreationSuccess \<lparr>result_content = [1, 2], result_path = [], result_pieceSize = 262144\<rparr>)
   \<and> m_done (deliverAll [UpdateProgress 99, CreationFailure ''late'']
       (deliver (CreationSuccess \<lparr>result_content = [1, 2], result_path = [], result_pieceSize = 262144\<rparr>)
          (TorrentCreationTask ''t1'' movie_params)))
   \<and> observable (\<lambda>p. None) (deliver (UpdateProgress 99)
       (deliver (CreationSuccess \<lparr>result_content = [1, 2], result_path = [], result_pieceSize = 262144\<rparr>)
          (TorrentCreationTask ''t1'' movie_params)))
     = (99, False, True, False, [], [1, 2], movie_params\<lparr>pieceSize := 262144\<rparr>)
   \<and> isDoneWithError (deliver (CreationFailure ''late'')
       (deliver (CreationSuccess \<lparr>result_content = [1, 2], result_path = [], result_pieceSize = 262144\<rparr>)
          (TorrentCreationTask ''t1'' movie_params)))"
  using events_after_terminal [of
      "CreationSuccess \<lparr>result_content = [1, 2], result_path = [], result_pieceSize = 262144\<rparr>"
      "deliver (CreationSuccess \<lparr>result_content = [1, 2], result_path = [], result_pieceSize = 262144\<rparr>)
          (TorrentCreationTask ''t1'' movie_params)"
      "TorrentCreationTask ''t1'' movie_params"
      "[UpdateProgress 99, CreationFailure ''late'']" "\<lambda>p. None" 99 "''late''"]
  by (simp add: task_defs TorrentCreationTask_def)

section \<open>The terminal events\<close>

text \<open>
  Claim C3 as stated does not hold for every result: \<open>isDoneWithSuccess()\<close> asks for
  inline content or a path, so a success event whose result has neither leaves the task
  done but not done-with-success.
\<close>

theorem empty_result_is_not_success:
  "\<not> m_done (TorrentCreationTask ''t1'' movie_params)
   \<and> \<not> isDoneWithSuccess
        (handleSuccess \<lparr>result_content = [], result_path = [], result_pieceSize = 262144\<rparr>
           (TorrentCreationTask ''t1'' movie_params))"
  by (simp add: task_defs TorrentCreationTask_def)

text \<open>
  Claim C3, amended: for every task and every success event with result \<open>R\<close>, after
  the event \<open>params.pieceSize\<close> is \<open>R\<close>'s piece size; \<open>isDoneWithSuccess()\<close> is true
  exactly when \<open>R\<close> has inline content or a path; \<open>content()\<close> returns \<open>R\<close>'s inline
  bytes when there are any, and otherwise, when \<open>R\<close> has a path, the bytes read from
  that path (none if the file cannot be opened).
\<close>

theorem handleSuccess_outcome:
  "isDoneWithSuccess (handleSuccess R t) = (result_content R \<noteq> [] \<or> result_path R \<noteq> [])
   \<and> pieceSize (params (handleSuccess R t)) = result_pieceSize R
   \<and> (result_content R \<noteq> [] \<longrightarrow> content fs (handleSuccess R t) = result_content R)
   \<and> (result_content R = [] \<and> result_path R \<noteq> [] \<longrightarrow>
        content fs (handleSuccess R t) =
          (case fs (result_path R) of None \<Rightarrow> [] | Some bytes \<Rightarrow> bytes))"
  by (simp add: task_defs)

theorem handleSuccess_outcome_witness:
  "isDoneWithSuccess (handleSuccess \<lparr>result_content = [1, 2], result_path = [], result_pieceSize = 262144\<rparr>
       (TorrentCreationTask ''t1'' movie_params))
   \<and> pieceSize (params (handleSuccess \<lparr>result_content = [1, 2], result_path = [], result_pieceSize = 262144\<rparr>
       (TorrentCreationTask ''t1'' movie_params))) = 262144
   \<and> content (\<lambda>p. None) (handleSuccess \<lparr>result_content = [1, 2], result_path = [], result_pieceSize = 262144\<rparr>
       (TorrentCreationTask ''t1'' movie_params)) = [1, 2]
   \<and> content [''/out/movie.torrent'' \<mapsto> [7, 8, 9]]
       (handleSuccess \<lparr>result_content = [], result_path = ''/out/movie.torrent'', result_pieceSize = 16384\<rparr>
       (TorrentCreationTask ''t1'' movie_params)) = [7, 8, 9]"
  using handleSuccess_outcome [of "\<lparr>result_content = [1, 2], result_path = [], result_pieceSize = 262144\<rparr>"
      "TorrentCreationTask ''t1'' movie_params" "\<lambda>p. None"]
    handleSuccess_outcome [of
      "\<lparr>result_content = [], result_path = ''/out/movie.torrent'', result_pieceSize = 16384\<rparr>"
      "TorrentCreationTask ''t1'' movie_params" "[''/out/movie.torrent'' \<mapsto> [7, 8, 9]]"]
  by simp

text \<open>
  Claim C4 as stated does not hold for every message: the manager's
  \<open>isDoneWithError()\<close> asks for a non-empty message, so a failure event with the empty
  message leaves the task done but not done-with-error.
\<close>

theorem empty_message_is_not_error:
  "\<not> m_done (TorrentCreationTask ''t1'' movie_params)
   \<and> \<not> isDoneWithError (handleFailure [] (TorrentCreationTask ''t1'' movie_params))"
  by (simp add: task_defs TorrentCreationTask_def)

text \<open>
  Claim C4, amended: for every task that has not received a terminal event and every
  failure event with message \<open>M\<close>, after the event \<open>errorMsg()\<close> is \<open>M\<close> and
  \<open>content()\<close> returns no bytes; the manager's \<open>isDoneWithError()\<close> is true exactly
  when \<open>M\<close> is non-empty, the controller's \<open>isDoneWithError()\<close> is true for every \<open>M\<close>.
\<close>

theorem handleFailure_outcome:
  "(t = deliverAll evs (TorrentCreationTask ident P) \<and> \<not> m_done t \<longrightarrow>
      errorMsg (handleFailure M t) = M
      \<and> content fs (handleFailure M t) = []
      \<and> isDoneWithError (handleFailure M t) = (M \<noteq> []))
   \<and> (c = mc_deliverAll evs (mc_TorrentCreationTask P) \<and> \<not> mc_m_done c \<longrightarrow>
      mc_errorMsg (mc_handleFailure M c) = M
      \<and> mc_content (mc_handleFailure M c) = []
      \<and> mc_isDoneWithError (mc_handleFailure M c))"
proof (intro conjI impI)
  assume a: "t = deliverAll evs (TorrentCreationTask ident P) \<and> \<not> m_done t"
  then have "\<not> m_done (deliverAll evs (TorrentCreationTask ident P))" by blast
  then have "m_result (deliverAll evs (TorrentCreationTask ident P)) = m_result (TorrentCreationTask ident P)"
    by (simp add: not_done_unchanged)
  with a have "m_result t = m_result (TorrentCreationTask ident P)" by blast
  then have r: "result_content (m_result t) = [] \<and> result_path (m_result t) = []"
    by (simp add: TorrentCreationTask_def)
  show "errorMsg (handleFailure M t) = M" by (simp add: task_defs)
  show "content fs (handleFailure M t) = []" using r by (simp add: task_defs)
  show "isDoneWithError (handleFailure M t) = (M \<noteq> [])" by (simp add: task_defs)
next
  assume a: "c = mc_deliverAll evs (mc_TorrentCreationTask P) \<and> \<not> mc_m_done c"
  then have "\<not> mc_m_done (mc_deliverAll evs (mc_TorrentCreationTask P))" by blast
  then have "mc_m_content (mc_deliverAll evs (mc_TorrentCreationTask P)) = []"
    by (rule mc_fresh_content)
  with a have r: "mc_m_content c = []" by blast
  show "mc_errorMsg (mc_handleFailure M c) = M" by (simp add: mc_errorMsg_def mc_handleFailure_def)
  show "mc_content (mc_handleFailure M c) = []" using r by (simp add: mc_content_def mc_handleFailure_def)
  show "mc_isDoneWithError (mc_handleFailure M c)" using r by (simp add: mc_isDoneWithError_def mc_handleFailure_def)
qed

theorem handleFailure_outcome_witness:
  "errorMsg (handleFailure ''input path does not exist''
       (deliverAll [UpdateProgress 10] (TorrentCreationTask ''t1'' movie_params))) = ''input path does not exist''
   \<and> content (\<lambda>p. None) (handleFailure ''input path does not exist''
       (deliverAll [UpdateProgress 10] (TorrentCreationTask ''t1'' movie_params))) = []
   \<and> isDoneWithError (handleFailure ''input path does not exist''
       (deliverAll [UpdateProgress 10] (TorrentCreationTask ''t1'' movie_params)))
   \<and> mc_isDoneWithError (mc_handleFailure []
       (mc_deliverAll [UpdateProgress 10] (mc_TorrentCreationTask movie_params)))
   \<and> mc_content (mc_handleFailure []
       (mc_deliverAll [UpdateProgress 10] (mc_TorrentCreationTask movie_params))) = []"
proof -
  have 1: "\<not> m_done (deliverAll [UpdateProgress 10] (TorrentCreationTask ''t1'' movie_params))"
    by (simp add: handleProgress_def TorrentCreationTask_def)
  have 2: "\<not> mc_m_done (mc_deliverAll [UpdateProgress 10] (mc_TorrentCreationTask movie_params))"
    by (simp add: mc_handleProgress_def mc_TorrentCreationTask_def)
  show ?thesis
    using 1 2 handleFailure_outcome [of "deliverAll [UpdateProgress 10] (TorrentCreationTask ''t1'' movie_params)"
      "[UpdateProgress 10]" "''t1''" movie_params "''input path does not exist''" "\<lambda>p. None"
      "mc_deliverAll [UpdateProgress 10] (mc_TorrentCreationTask movie_params)" ]
      handleFailure_outcome [of "deliverAll [UpdateProgress 10] (TorrentCreationTask ''t1'' movie_params)"
      "[UpdateProgress 10]" "''t1''" movie_params "[]" "\<lambda>p. None"
      "mc_deliverAll [UpdateProgress 10] (mc_TorrentCreationTask movie_params)" ]
    by simp
qed

section \<open>Callbacks for an id the registry does not hold\<close>

text \<open>
  Claim C2: when the registry holds no task with the id (for instance because the task
  was deleted), the failure callback returns the manager as it was, and the success
  callback leaves the registry \<open>m_tasks\<close> as it was: no task is touched. Outside the
  registry, the success callback still calls \<open>result.startSeeding(false)\<close> when its
  creator was started with \<open>startSeeding\<close>, before the lookup; without that flag it
  returns the manager as it was.
\<close>

theorem callback_for_absent_id_is_noop:
  assumes "getTask mgr taskId = None"
  shows "onFailure taskId msg mgr = mgr
    \<and> m_tasks (onSuccess startSeeding taskId result mgr) = m_tasks mgr
    \<and> effects (onSuccess startSeeding taskId result mgr)
        = (if startSeeding then effects mgr @ [StartSeeding result] else effects mgr)
    \<and> onSuccess False taskId result mgr = mgr"
  using assms by (simp add: onFailure_def onSuccess_def)

theorem callback_for_absent_id_is_noop_witness:
  "getTask (snd (deleteTask ''a''
       \<lparr>m_tasks = [TorrentCreationTask ''a'' movie_params, TorrentCreationTask ''b'' movie_params],
        effects = []\<rparr>)) ''a'' = None
   \<and> onFailure ''a'' ''interrupted'' (snd (deleteTask ''a''
       \<lparr>m_tasks = [TorrentCreationTask ''a'' movie_params, TorrentCreationTask ''b'' movie_params],
        effects = []\<rparr>))
     = \<lparr>m_tasks = [TorrentCreationTask ''b'' movie_params], effects = [RequestInterruption ''a'']\<rparr>
   \<and> m_tasks (onSuccess True ''a'' \<lparr>result_content = [1], result_path = [], result_pieceSize = 16384\<rparr>
       (snd (deleteTask ''a''
       \<lparr>m_tasks = [TorrentCreationTask ''a'' movie_params, TorrentCreationTask ''b'' movie_params],
        effects = []\<rparr>)))
     = [TorrentCreationTask ''b'' movie_params]"
proof -
  have d: "snd (deleteTask ''a''
       \<lparr>m_tasks = [TorrentCreationTask ''a'' movie_params, TorrentCreationTask ''b'' movie_params],
        effects = []\<rparr>)
     = \<lparr>m_tasks = [TorrentCreationTask ''b'' movie_params], effects = [RequestInterruption ''a'']\<rparr>"
    by (simp add: deleteTask_def getTask_def task_id_def TorrentCreationTask_def)
  have g: "getTask \<lparr>m_tasks = [TorrentCreationTask ''b'' movie_params],
                    effects = [RequestInterruption ''a'']\<rparr> ''a'' = None"
    by (simp add: getTask_def task_id_def TorrentCreationTask_def)
  show ?thesis
    using g callback_for_absent_id_is_noop [OF g, of "''interrupted''" True
        "\<lparr>result_content = [1], result_path = [], result_pieceSize = 16384\<rparr>"]
    by (simp add: d)
qed

section \<open>Deleting a task\<close>

text \<open>
  Claim C5: \<open>deleteTask\<close> on an id the registry does not hold returns false and the
  manager as it was; on an id it holds it returns true, removes that task and no other,
  after which \<open>getTask\<close> on the id finds nothing and a second \<open>deleteTask\<close> returns
  false. For the first manager the registry is the list of its tasks, and the last two
  facts use that the ids in it are pairwise distinct, which \<open>createTask\<close> maintains;
  for the second manager the registry is a map.
\<close>

theorem deleteTask_outcome:
  "(getTask mgr ident = None \<longrightarrow> deleteTask ident mgr = (False, mgr))
   \<and> (getTask mgr ident \<noteq> None \<longrightarrow>
        fst (deleteTask ident mgr) = True
        \<and> taskIds (snd (deleteTask ident mgr)) = remove1 ident (taskIds mgr)
        \<and> (\<forall>k. k \<noteq> ident \<longrightarrow> getTask (snd (deleteTask ident mgr)) k = getTask mgr k))
   \<and> (getTask mgr ident \<noteq> None \<and> distinct (taskIds mgr) \<longrightarrow>
        getTask (snd (deleteTask ident mgr)) ident = None
        \<and> fst (deleteTask ident (snd (deleteTask ident mgr))) = False)
   \<and> (getTask_v2 mgr2 ident = None \<longrightarrow> deleteTask_v2 ident mgr2 = (False, mgr2))
   \<and> (getTask_v2 mgr2 ident \<noteq> None \<longrightarrow>
        fst (deleteTask_v2 ident mgr2) = True
        \<and> getTask_v2 (snd (deleteTask_v2 ident mgr2)) ident = None
        \<and> (\<forall>k. k \<noteq> ident \<longrightarrow> getTask_v2 (snd (deleteTask_v2 ident mgr2)) k = getTask_v2 mgr2 k)
        \<and> fst (deleteTask_v2 ident (snd (deleteTask_v2 ident mgr2))) = False)"
proof (intro conjI impI allI)
  assume "getTask mgr ident = None"
  then show "deleteTask ident mgr = (False, mgr)" by (simp add: deleteTask_def)
next
  assume "getTask mgr ident \<noteq> None"
  then show "fst (deleteTask ident mgr) = True" by (auto simp: deleteTask_def)
next
  show "taskIds (snd (deleteTask ident mgr)) = remove1 ident (taskIds mgr)"
    by (rule taskIds_deleteTask)
next
  fix k assume "getTask mgr ident \<noteq> None" and "k \<noteq> ident"
  then show "getTask (snd (deleteTask ident mgr)) k = getTask mgr k"
    by (auto simp: deleteTask_def getTask_def find_tasksById_erase_other)
next
  assume a: "getTask mgr ident \<noteq> None \<and> distinct (taskIds mgr)"
  then have "ident \<notin> set (remove1 ident (taskIds mgr))" by simp
  then have "ident \<notin> set (taskIds (snd (deleteTask ident mgr)))" by (simp add: taskIds_deleteTask)
  then show g: "getTask (snd (deleteTask ident mgr)) ident = None" by (simp add: getTask_None_iff)
  then show "fst (deleteTask ident (snd (deleteTask ident mgr))) = False" by (simp add: deleteTask_def)
next
  assume "getTask_v2 mgr2 ident = None"
  then show "deleteTask_v2 ident mgr2 = (False, mgr2)" by (simp add: deleteTask_v2_def getTask_v2_def)
next
  assume a: "getTask_v2 mgr2 ident \<noteq> None"
  then show "fst (deleteTask_v2 ident mgr2) = True" by (auto simp: deleteTask_v2_def getTask_v2_def)
  from a show g: "getTask_v2 (snd (deleteTask_v2 ident mgr2)) ident = None"
    by (auto simp: deleteTask_v2_def getTask_v2_def)
  then show "fst (deleteTask_v2 ident (snd (deleteTask_v2 ident mgr2))) = False"
    by (simp add: deleteTask_v2_def getTask_v2_def)
next
  fix k assume "getTask_v2 mgr2 ident \<noteq> None" and "k \<noteq> ident"
  then show "getTask_v2 (snd (deleteTask_v2 ident mgr2)) k = getTask_v2 mgr2 k"
    by (auto simp: deleteTask_v2_def getTask_v2_def)
qed


theorem deleteTask_outcome_witness:
  "getTask \<lparr>m_tasks = [TorrentCreationTask ''a'' movie_params, TorrentCreationTask ''b'' movie_params],
             effects = []\<rparr> ''a'' \<noteq> None
   \<and> distinct (taskIds \<lparr>m_tasks = [TorrentCreationTask ''a'' movie_params, TorrentCreationTask ''b'' movie_params],
             effects = []\<rparr>)
   \<and> fst (deleteTask ''a''
        \<lparr>m_tasks = [TorrentCreationTask ''a'' movie_params, TorrentCreationTask ''b'' movie_params],
         effects = []\<rparr>) = True
   \<and> getTask (snd (deleteTask ''a''
        \<lparr>m_tasks = [TorrentCreationTask ''a'' movie_params, TorrentCreationTask ''b'' movie_params],
         effects = []\<rparr>)) ''a'' = None
   \<and> fst (deleteTask ''a'' (snd (deleteTask ''a''
        \<lparr>m_tasks = [TorrentCreationTask ''a'' movie_params, TorrentCreationTask ''b'' movie_params],
         effects = []\<rparr>))) = False
   \<and> deleteTask ''c''
        \<lparr>m_tasks = [TorrentCreationTask ''a'' movie_params, TorrentCreationTask ''b'' movie_params],
         effects = []\<rparr>
       = (False, \<lparr>m_tasks = [TorrentCreationTask ''a'' movie_params, TorrentCreationTask ''b'' movie_params],
         effects = []\<rparr>)
   \<and> fst (deleteTask_v2 ''a''
        \<lparr>m_tasks_v2 = [''a'' \<mapsto> TorrentCreationTask_v2 movie_params], effects_v2 = []\<rparr>) = True
   \<and> fst (deleteTask_v2 ''a'' (snd (deleteTask_v2 ''a''
        \<lparr>m_tasks_v2 = [''a'' \<mapsto> TorrentCreationTask_v2 movie_params], effects_v2 = []\<rparr>))) = False"
proof -
  let ?mgr = "\<lparr>m_tasks = [TorrentCreationTask ''a'' movie_params, TorrentCreationTask ''b'' movie_params],
             effects = []\<rparr>"
  let ?mgr2 = "\<lparr>m_tasks_v2 = [''a'' \<mapsto> TorrentCreationTask_v2 movie_params], effects_v2 = []\<rparr>"
  have a: "getTask ?mgr ''a'' \<noteq> None"
    by (simp add: getTask_def task_id_def TorrentCreationTask_def)
  have c: "getTask ?mgr ''c'' = None"
    by (simp add: getTask_def task_id_def TorrentCreationTask_def)
  have d: "distinct (taskIds ?mgr)"
    by (simp add: taskIds_def task_id_def TorrentCreationTask_def)
  have a2: "getTask_v2 ?mgr2 ''a'' \<noteq> None"
    by (simp add: getTask_v2_def)
  show ?thesis
    using a c d a2 deleteTask_outcome [of ?mgr "''a''" ?mgr2] deleteTask_outcome [of ?mgr "''c''" ?mgr2]
    by simp
qed

section \<open>Reading the content\<close>

text \<open>
  Claim C7: \<open>content()\<close> returns no bytes when the task is not done with success;
  otherwise the inline bytes when there are any, else what reading the file at the
  recorded path gives, and no bytes when the file cannot be opened. The function has no
  error result. The controller's task keeps inline content only: on every task built by
  the constructor and a sequence of events, its \<open>content()\<close> is empty when the task is
  not done with success and the non-empty stored bytes otherwise.
\<close>

theorem content_best_effort:
  "(\<not> isDoneWithSuccess t \<longrightarrow> content fs t = [])
   \<and> (isDoneWithSuccess t \<and> result_content (m_result t) \<noteq> [] \<longrightarrow>
        content fs t = result_content (m_result t))
   \<and> (isDoneWithSuccess t \<and> result_content (m_result t) = [] \<longrightarrow>
        content fs t = (case fs (result_path (m_result t)) of None \<Rightarrow> [] | Some bytes \<Rightarrow> bytes))
   \<and> (isDoneWithSuccess t \<and> result_content (m_result t) = [] \<and> fs (result_path (m_result t)) = None \<longrightarrow>
        content fs t = [])
   \<and> (c = mc_deliverAll evs (mc_TorrentCreationTask P) \<longrightarrow>
        (\<not> mc_isDoneWithSuccess c \<longrightarrow> mc_content c = [])
        \<and> (mc_isDoneWithSuccess c \<longrightarrow> mc_content c = mc_m_content c \<and> mc_m_content c \<noteq> []))"
proof -
  have "mc_m_done (mc_deliverAll evs (mc_TorrentCreationTask P))
        \<or> mc_m_content (mc_deliverAll evs (mc_TorrentCreationTask P)) = []"
    by (rule mc_content_needs_done) (simp add: mc_TorrentCreationTask_def)
  then have "\<not> mc_isDoneWithSuccess (mc_deliverAll evs (mc_TorrentCreationTask P)) \<longrightarrow>
             mc_content (mc_deliverAll evs (mc_TorrentCreationTask P)) = []"
    by (auto simp: mc_isDoneWithSuccess_def mc_content_def)
  moreover have "mc_isDoneWithSuccess (mc_deliverAll evs (mc_TorrentCreationTask P)) \<longrightarrow>
      mc_content (mc_deliverAll evs (mc_TorrentCreationTask P))
        = mc_m_content (mc_deliverAll evs (mc_TorrentCreationTask P))
      \<and> mc_m_content (mc_deliverAll evs (mc_TorrentCreationTask P)) \<noteq> []"
    by (simp add: mc_isDoneWithSuccess_def mc_content_def)
  moreover have "(\<not> isDoneWithSuccess t \<longrightarrow> content fs t = [])
   \<and> (isDoneWithSuccess t \<and> result_content (m_result t) \<noteq> [] \<longrightarrow>
        content fs t = result_content (m_result t))
   \<and> (isDoneWithSuccess t \<and> result_content (m_result t) = [] \<longrightarrow>
        content fs t = (case fs (result_path (m_result t)) of None \<Rightarrow> [] | Some bytes \<Rightarrow> bytes))
   \<and> (isDoneWithSuccess t \<and> result_content (m_result t) = [] \<and> fs (result_path (m_result t)) = None \<longrightarrow>
        content fs t = [])"
    by (simp add: content_def)
  ultimately show ?thesis by blast
qed

theorem content_best_effort_witness:
  "content (\<lambda>p. None) (deliverAll [UpdateProgress 40] (TorrentCreationTask ''t1'' movie_params)) = []
   \<and> content (\<lambda>p. None) (deliverAll [CreationSuccess
        \<lparr>result_content = [], result_path = ''/out/movie.torrent'', result_pieceSize = 16384\<rparr>]
        (TorrentCreationTask ''t1'' movie_params)) = []
   \<and> content (\<lambda>p. None) (deliverAll [CreationSuccess
        \<lparr>result_content = [4, 2], result_path = ''/out/movie.torrent'', result_pieceSize = 16384\<rparr>]
        (TorrentCreationTask ''t1'' movie_params)) = [4, 2]
   \<and> mc_content (mc_deliverAll [CreationFailure ''no input''] (mc_TorrentCreationTask movie_params)) = []"
proof -
  let ?t1 = "deliverAll [UpdateProgress 40] (TorrentCreationTask ''t1'' movie_params)"
  let ?t2 = "deliverAll [CreationSuccess
        \<lparr>result_content = [], result_path = ''/out/movie.torrent'', result_pieceSize = 16384\<rparr>]
        (TorrentCreationTask ''t1'' movie_params)"
  let ?t3 = "deliverAll [CreationSuccess
        \<lparr>result_content = [4, 2], result_path = ''/out/movie.torrent'', result_pieceSize = 16384\<rparr>]
        (TorrentCreationTask ''t1'' movie_params)"
  let ?c = "mc_deliverAll [CreationFailure ''no input''] (mc_TorrentCreationTask movie_params)"
  have 1: "\<not> isDoneWithSuccess ?t1"
    by (simp add: isDoneWithSuccess_def handleProgress_def TorrentCreationTask_def)
  have 2: "isDoneWithSuccess ?t2 \<and> result_content (m_result ?t2) = []"
    by (simp add: isDoneWithSuccess_def handleSuccess_def)
  have 3: "isDoneWithSuccess ?t3 \<and> result_content (m_result ?t3) = [4, 2]"
    by (simp add: isDoneWithSuccess_def handleSuccess_def)
  have 4: "\<not> mc_isDoneWithSuccess ?c"
    by (simp add: mc_isDoneWithSuccess_def mc_handleFailure_def mc_TorrentCreationTask_def)
  show ?thesis
    using 1 2 3 4
      content_best_effort [of ?t1 "\<lambda>p. None" ?c "[CreationFailure ''no input'']" movie_params]
      content_best_effort [of ?t2 "\<lambda>p. None" ?c "[CreationFailure ''no input'']" movie_params]
      content_best_effort [of ?t3 "\<lambda>p. None" ?c "[CreationFailure ''no input'']" movie_params]
    by simp
qed

section \<open>The stored parameters\<close>

text \<open>
  Claim C8: the stored parameters change in one respect only. A progress event and a
  failure event leave \<open>params()\<close> as it was, a success event overwrites
  \<open>params.pieceSize\<close> with the piece size the result reports, every field other than
  \<open>pieceSize\<close> is the same after any sequence of events, and a sequence without a
  success event leaves the parameters as they were.
\<close>

theorem params_only_pieceSize_changes:
  "params (handleProgress p t) = params t
   \<and> params (handleFailure msg t) = params t
   \<and> params (handleSuccess r t) = (params t)\<lparr>pieceSize := result_pieceSize r\<rparr>
   \<and> (params (deliverAll evs t))\<lparr>pieceSize := x\<rparr> = (params t)\<lparr>pieceSize := x\<rparr>
   \<and> ((\<forall>e \<in> set evs. \<not> isSuccess e) \<longrightarrow> params (deliverAll evs t) = params t)"
  by (simp add: params_deliverAll_frame params_deliverAll_no_success) (simp add: task_defs)

theorem params_only_pieceSize_changes_witness:
  "params (deliverAll [UpdateProgress 10, UpdateProgress 90, CreationFailure ''disk full'']
      (TorrentCreationTask ''t1'' movie_params)) = movie_params
   \<and> params (deliverAll [UpdateProgress 10,
        CreationSuccess \<lparr>result_content = [1], result_path = [], result_pieceSize = 262144\<rparr>]
      (TorrentCreationTask ''t1'' movie_params)) = movie_params\<lparr>pieceSize := 262144\<rparr>"
proof -
  have 1: "\<forall>e \<in> set [UpdateProgress 10, UpdateProgress 90, CreationFailure ''disk full'']. \<not> isSuccess e"
    by simp
  have 2: "params (TorrentCreationTask ''t1'' movie_params) = movie_params"
    by (simp add: params_def TorrentCreationTask_def)
  have 3: "deliverAll [UpdateProgress 10,
        CreationSuccess \<lparr>result_content = [1], result_path = [], result_pieceSize = 262144\<rparr>]
      (TorrentCreationTask ''t1'' movie_params)
     = handleSuccess \<lparr>result_content = [1], result_path = [], result_pieceSize = 262144\<rparr>
         (handleProgress 10 (TorrentCreationTask ''t1'' movie_params))"
    by simp
  show ?thesis
    using 1 2
      params_only_pieceSize_changes [where t = "TorrentCreationTask ''t1'' movie_params"
        and evs = "[UpdateProgress 10, UpdateProgress 90, CreationFailure ''disk full'']"]
      params_only_pieceSize_changes [where p = 10
        and t = "handleProgress 10 (TorrentCreationTask ''t1'' movie_params)"
        and r = "\<lparr>result_content = [1], result_path = [], result_pieceSize = 262144\<rparr>"]
    unfolding 3 by simp
qed

section \<open>A fresh task\<close>

text \<open>
  Claim C9: the task a constructor builds has \<open>started=false\<close> and \<open>done=false\<close>, so
  \<open>isRunning()\<close>, \<open>isDoneWithSuccess()\<close> and \<open>isDoneWithError()\<close> are all false; this
  is the task \<open>createTask\<close> (and the controller's \<open>createAction\<close>) registers under
  the id it returns, before any event is delivered.
\<close>

theorem fresh_task_is_pending:
  "m_started (TorrentCreationTask ident P) = False
   \<and> m_done (TorrentCreationTask ident P) = False
   \<and> \<not> isRunning (TorrentCreationTask ident P)
   \<and> \<not> isDoneWithSuccess (TorrentCreationTask ident P)
   \<and> \<not> isDoneWithError (TorrentCreationTask ident P)
   \<and> (createTask g n P ss mgr = Some (ident, n', mgr') \<longrightarrow>
        getTask mgr' ident = Some (TorrentCreationTask ident P))
   \<and> mc_m_started (mc_TorrentCreationTask P) = False
   \<and> mc_m_done (mc_TorrentCreationTask P) = False
   \<and> \<not> mc_isRunning (mc_TorrentCreationTask P)
   \<and> \<not> mc_isDoneWithSuccess (mc_TorrentCreationTask P)
   \<and> \<not> mc_isDoneWithError (mc_TorrentCreationTask P)
   \<and> (createAction ext g n req ctl = Some (Inr (ident, n', ctl')) \<longrightarrow>
        mc_m_tasks ctl' ident = Some (mc_TorrentCreationTask (createTorrentParams ext req)))"
proof -
  have "createTask g n P ss mgr = Some (ident, n', mgr') \<longrightarrow>
        getTask mgr' ident = Some (TorrentCreationTask ident P)"
    by (simp add: createTask_Some(3))
  moreover have "createAction ext g n req ctl = Some (Inr (ident, n', ctl')) \<longrightarrow>
        mc_m_tasks ctl' ident = Some (mc_TorrentCreationTask (createTorrentParams ext req))"
    by (simp add: createAction_Some(2))
  moreover have "m_started (TorrentCreationTask ident P) = False
   \<and> m_done (TorrentCreationTask ident P) = False
   \<and> \<not> isRunning (TorrentCreationTask ident P)
   \<and> \<not> isDoneWithSuccess (TorrentCreationTask ident P)
   \<and> \<not> isDoneWithError (TorrentCreationTask ident P)"
    by (simp add: TorrentCreationTask_def task_defs)
  moreover have "mc_m_started (mc_TorrentCreationTask P) = False
   \<and> mc_m_done (mc_TorrentCreationTask P) = False
   \<and> \<not> mc_isRunning (mc_TorrentCreationTask P)
   \<and> \<not> mc_isDoneWithSuccess (mc_TorrentCreationTask P)
   \<and> \<not> mc_isDoneWithError (mc_TorrentCreationTask P)"
    by (simp add: mc_TorrentCreationTask_def mc_task_defs)
  ultimately show ?thesis by blast
qed

theorem fresh_task_is_pending_witness:
  "createTask (\<lambda>k. if k = 0 then ''a'' else ''b'') 0 movie_params False
       \<lparr>m_tasks = [TorrentCreationTask ''a'' movie_params], effects = []\<rparr>
     = Some (''b'', 2,
         \<lparr>m_tasks = [TorrentCreationTask ''a'' movie_params, TorrentCreationTask ''b'' movie_params],
          effects = [StartCreator ''b'' movie_params False]\<rparr>)
   \<and> getTask \<lparr>m_tasks = [TorrentCreationTask ''a'' movie_params, TorrentCreationTask ''b'' movie_params],
          effects = [StartCreator ''b'' movie_params False]\<rparr> ''b''
       = Some (TorrentCreationTask ''b'' movie_params)
   \<and> \<not> isRunning (TorrentCreationTask ''b'' movie_params)
   \<and> \<not> isDoneWithSuccess (TorrentCreationTask ''b'' movie_params)
   \<and> \<not> isDoneWithError (TorrentCreationTask ''b'' movie_params)"
proof -
  let ?g = "\<lambda>k::nat. if k = 0 then ''a'' else ''b''"
  let ?mgr = "\<lparr>m_tasks = [TorrentCreationTask ''a'' movie_params], effects = []\<rparr>"
  have c: "tasksById_contains ?mgr ''a''" "\<not> tasksById_contains ?mgr ''b''"
    by (simp_all add: tasksById_contains_def task_id_def TorrentCreationTask_def)
  have l: "taskId_loop ?g (tasksById_contains ?mgr) (?g 0) (Suc 0) = Some (''b'', 2)"
    using c by (simp add: taskId_loop_retry taskId_loop_stop)
  have 1: "createTask ?g 0 movie_params False ?mgr
     = Some (''b'', 2,
         \<lparr>m_tasks = [TorrentCreationTask ''a'' movie_params, TorrentCreationTask ''b'' movie_params],
          effects = [StartCreator ''b'' movie_params False]\<rparr>)"
    using l by (simp add: createTask_def)
  show ?thesis
    using 1 fresh_task_is_pending [where ident = "''b''" and P = movie_params and g = ?g and n = 0
        and ss = False and mgr = ?mgr and n' = 2
        and mgr' = "\<lparr>m_tasks = [TorrentCreationTask ''a'' movie_params, TorrentCreationTask ''b'' movie_params],
          effects = [StartCreator ''b'' movie_params False]\<rparr>"]
    by simp
qed

section \<open>Identifier allocation\<close>

text \<open>
  Claim C6: every call of \<open>createTask\<close> retries the id generation while the candidate is
  an id of the registry: when the uuid stream yields \<open>k\<close> held candidates and then one
  that is not held, the call returns that one; whatever id a call returns was not in
  the registry when the task was inserted, and the registry's ids afterwards are the old
  ones followed by the new one. So pairwise distinct ids stay pairwise distinct under
  \<open>createTask\<close>, under a whole run of \<open>createTask\<close> calls (whose returned ids are
  pairwise distinct too), under \<open>deleteTask\<close> and under the outcome callbacks. The
  controller's \<open>createAction\<close> does the same on its map: the id it returns was not a
  key, so the insertion replaces no task.
\<close>

theorem created_ids_are_unique:
  "(createTask g n P ss mgr = Some (ident, n', mgr') \<longrightarrow>
      \<not> tasksById_contains mgr ident
      \<and> taskIds mgr' = taskIds mgr @ [ident]
      \<and> (distinct (taskIds mgr) \<longrightarrow> distinct (taskIds mgr')))
   \<and> ((\<forall>j<k. tasksById_contains mgr (g (n + j))) \<and> \<not> tasksById_contains mgr (g (n + k)) \<longrightarrow>
      createTask g n P ss mgr =
        Some (g (n + k), Suc (n + k),
          mgr\<lparr>m_tasks := m_tasks mgr @ [TorrentCreationTask (g (n + k)) P],
              effects := effects mgr @ [StartCreator (g (n + k)) P ss]\<rparr>))
   \<and> (distinct (taskIds mgr) \<and> createTasks g n reqs mgr = Some (ids, n', mgr') \<longrightarrow>
      distinct ids \<and> taskIds mgr' = taskIds mgr @ ids \<and> distinct (taskIds mgr'))
   \<and> (distinct (taskIds mgr) \<longrightarrow>
      distinct (taskIds (snd (deleteTask ident mgr)))
      \<and> taskIds (onFailure ident msg mgr) = taskIds mgr
      \<and> taskIds (onSuccess ss ident r mgr) = taskIds mgr)
   \<and> (createAction ext g n req ctl = Some (Inr (ident, n', ctl')) \<longrightarrow>
      mc_m_tasks ctl ident = None
      \<and> (\<forall>i. i \<noteq> ident \<longrightarrow> mc_m_tasks ctl' i = mc_m_tasks ctl i)
      \<and> dom (mc_m_tasks ctl') = insert ident (dom (mc_m_tasks ctl)))
   \<and> (requireParams ext req [''inputPath'']
       \<and> (\<forall>j<k. mc_m_tasks ctl (g (n + j)) \<noteq> None) \<and> mc_m_tasks ctl (g (n + k)) = None \<longrightarrow>
      createAction ext g n req ctl =
        Some (Inr (g (n + k), Suc (n + k),
          ctl\<lparr>mc_m_tasks := (mc_m_tasks ctl)(g (n + k) \<mapsto> mc_TorrentCreationTask (createTorrentParams ext req)),
              mc_effects := mc_effects ctl @ [mc_StartCreator (createTorrentParams ext req)]\<rparr>)))"
proof (intro conjI impI)
  assume a: "createTask g n P ss mgr = Some (ident, n', mgr')"
  from createTask_Some(1) [OF a] show "\<not> tasksById_contains mgr ident"
    by (simp add: tasksById_contains_iff)
  from createTask_Some(2) [OF a] show t: "taskIds mgr' = taskIds mgr @ [ident]" .
  assume "distinct (taskIds mgr)"
  with createTask_Some(1) [OF a] t show "distinct (taskIds mgr')" by simp
next
  assume "(\<forall>j<k. tasksById_contains mgr (g (n + j))) \<and> \<not> tasksById_contains mgr (g (n + k))"
  then show "createTask g n P ss mgr =
        Some (g (n + k), Suc (n + k),
          mgr\<lparr>m_tasks := m_tasks mgr @ [TorrentCreationTask (g (n + k)) P],
              effects := effects mgr @ [StartCreator (g (n + k)) P ss]\<rparr>)"
    by (simp add: createTask_first_fresh)
next
  assume a: "distinct (taskIds mgr) \<and> createTasks g n reqs mgr = Some (ids, n', mgr')"
  then have "distinct ids \<and> taskIds mgr' = taskIds mgr @ ids \<and> distinct (taskIds mgr')"
    using createTasks_Some [of g n reqs mgr ids n' mgr'] by blast
  then show "distinct ids" and "taskIds mgr' = taskIds mgr @ ids" and "distinct (taskIds mgr')"
    by blast+
next
  assume "distinct (taskIds mgr)"
  then show "distinct (taskIds (snd (deleteTask ident mgr)))" by (simp add: taskIds_deleteTask)
next
  show "taskIds (onFailure ident msg mgr) = taskIds mgr" by (rule taskIds_onFailure)
next
  show "taskIds (onSuccess ss ident r mgr) = taskIds mgr" by (rule taskIds_onSuccess)
next
  assume a: "createAction ext g n req ctl = Some (Inr (ident, n', ctl'))"
  from createAction_Some(1) [OF a] show "mc_m_tasks ctl ident = None" .
  from createAction_Some(2) [OF a] show "\<forall>i. i \<noteq> ident \<longrightarrow> mc_m_tasks ctl' i = mc_m_tasks ctl i"
    by simp
  from createAction_Some(2) [OF a] show "dom (mc_m_tasks ctl') = insert ident (dom (mc_m_tasks ctl))"
    by simp
next
  assume "requireParams ext req [''inputPath'']
       \<and> (\<forall>j<k. mc_m_tasks ctl (g (n + j)) \<noteq> None) \<and> mc_m_tasks ctl (g (n + k)) = None"
  then show "createAction ext g n req ctl =
        Some (Inr (g (n + k), Suc (n + k),
          ctl\<lparr>mc_m_tasks := (mc_m_tasks ctl)(g (n + k) \<mapsto> mc_TorrentCreationTask (createTorrentParams ext req)),
              mc_effects := mc_effects ctl @ [mc_StartCreator (createTorrentParams ext req)]\<rparr>))"
    by (simp add: createAction_first_fresh)
qed

theorem created_ids_are_unique_witness:
  "createTask (\<lambda>k. if k < 2 then ''a'' else ''b'') 1 movie_params True
       \<lparr>m_tasks = [TorrentCreationTask ''a'' movie_params],
        effects = [StartCreator ''a'' movie_params False]\<rparr>
     = Some (''b'', 3,
         \<lparr>m_tasks = [TorrentCreationTask ''a'' movie_params, TorrentCreationTask ''b'' movie_params],
          effects = [StartCreator ''a'' movie_params False, StartCreator ''b'' movie_params True]\<rparr>)
   \<and> createTasks (\<lambda>k. if k < 2 then ''a'' else ''b'') 0 [(movie_params, False), (movie_params, True)]
       \<lparr>m_tasks = [], effects = []\<rparr>
     = Some ([''a'', ''b''], 3,
         \<lparr>m_tasks = [TorrentCreationTask ''a'' movie_params, TorrentCreationTask ''b'' movie_params],
          effects = [StartCreator ''a'' movie_params False, StartCreator ''b'' movie_params True]\<rparr>)
   \<and> distinct (taskIds
         \<lparr>m_tasks = [TorrentCreationTask ''a'' movie_params, TorrentCreationTask ''b'' movie_params],
          effects = [StartCreator ''a'' movie_params False, StartCreator ''b'' movie_params True]\<rparr>)"
proof -
  let ?g = "\<lambda>k::nat. if k < 2 then ''a'' else ''b''"
  let ?mgr0 = "\<lparr>m_tasks = [], effects = []\<rparr>"
  let ?mgr1 = "\<lparr>m_tasks = [TorrentCreationTask ''a'' movie_params],
        effects = [StartCreator ''a'' movie_params False]\<rparr>"
  let ?mgr2 = "\<lparr>m_tasks = [TorrentCreationTask ''a'' movie_params, TorrentCreationTask ''b'' movie_params],
          effects = [StartCreator ''a'' movie_params False, StartCreator ''b'' movie_params True]\<rparr>"
  have h0: "(\<forall>j<0. tasksById_contains ?mgr0 (?g (0 + j))) \<and> \<not> tasksById_contains ?mgr0 (?g (0 + 0))"
    by (simp add: tasksById_contains_def)
  have h1: "(\<forall>j<1. tasksById_contains ?mgr1 (?g (1 + j))) \<and> \<not> tasksById_contains ?mgr1 (?g (1 + 1))"
    by (simp add: tasksById_contains_def task_id_def TorrentCreationTask_def)
  have "createTask ?g 0 movie_params False ?mgr0
      = Some (?g (0 + 0), Suc (0 + 0),
          ?mgr0\<lparr>m_tasks := m_tasks ?mgr0 @ [TorrentCreationTask (?g (0 + 0)) movie_params],
              effects := effects ?mgr0 @ [StartCreator (?g (0 + 0)) movie_params False]\<rparr>)"
    by (rule created_ids_are_unique [where g = ?g and n = 0 and k = 0 and mgr = ?mgr0,
          THEN conjunct2, THEN conjunct1, THEN mp, OF h0])
  then have c0: "createTask ?g 0 movie_params False ?mgr0 = Some (''a'', 1, ?mgr1)"
    by simp
  have "createTask ?g 1 movie_params True ?mgr1
      = Some (?g (1 + 1), Suc (1 + 1),
          ?mgr1\<lparr>m_tasks := m_tasks ?mgr1 @ [TorrentCreationTask (?g (1 + 1)) movie_params],
              effects := effects ?mgr1 @ [StartCreator (?g (1 + 1)) movie_params True]\<rparr>)"
    by (rule created_ids_are_unique [where g = ?g and n = 1 and k = 1 and mgr = ?mgr1,
          THEN conjunct2, THEN conjunct1, THEN mp, OF h1])
  then have c1: "createTask ?g 1 movie_params True ?mgr1 = Some (''b'', 3, ?mgr2)"
    by simp
  have cs: "createTasks ?g 0 [(movie_params, False), (movie_params, True)] ?mgr0
     = Some ([''a'', ''b''], 3, ?mgr2)"
    using c0 c1 by simp
  have d0: "distinct (taskIds ?mgr0)" by (simp add: taskIds_def)
  from d0 cs have "distinct (taskIds ?mgr0) \<and>
      createTasks ?g 0 [(movie_params, False), (movie_params, True)] ?mgr0 = Some ([''a'', ''b''], 3, ?mgr2)"
    by (rule conjI)
  then have "distinct [''a'', ''b''] \<and> taskIds ?mgr2 = taskIds ?mgr0 @ [''a'', ''b'']
      \<and> distinct (taskIds ?mgr2)"
    by (rule created_ids_are_unique [THEN conjunct2, THEN conjunct2, THEN conjunct1, THEN mp])
  then have "distinct (taskIds ?mgr2)" by (rule conjunct2 [THEN conjunct2])
  with c1 cs show ?thesis by simp
qed

section \<open>The source tag of the controller\<close>

text \<open>
  Claim C10: in the controller, \<open>createAction\<close> assigns the request's \<open>comment\<close>
  parameter to \<open>params.source\<close>. The parameter structure it builds is the same whatever
  the request's \<open>source\<close> parameter is (set to any value, or absent), the task it
  registers keeps the comment as its source tag under every sequence of events, and the
  \<open>source\<close> entry of the status object is that comment (no entry when it is empty).
\<close>

theorem source_is_taken_from_comment:
  "source (createTorrentParams ext req) = request_param req KEY_COMMENT
   \<and> createTorrentParams ext (req(KEY_SOURCE := v)) = createTorrentParams ext req
   \<and> (createAction ext g n req ctl = Some (Inr (ident, n', ctl')) \<longrightarrow>
        mc_m_tasks ctl' ident = Some (mc_TorrentCreationTask (createTorrentParams ext req))
        \<and> source (mc_params (mc_deliverAll evs (mc_TorrentCreationTask (createTorrentParams ext req))))
            = request_param req KEY_COMMENT
        \<and> statusAction_taskJson ext ident
              (mc_deliverAll evs (mc_TorrentCreationTask (createTorrentParams ext req))) KEY_SOURCE
            = (if request_param req KEY_COMMENT = [] then None
               else Some (JsonString (request_param req KEY_COMMENT))))"
proof -
  have s: "source (mc_params (mc_deliverAll evs (mc_TorrentCreationTask (createTorrentParams ext req))))
            = request_param req KEY_COMMENT"
    by (simp add: mc_params_def mc_source_deliverAll mc_TorrentCreationTask_def source_createTorrentParams)
  have j: "statusAction_taskJson ext ident
              (mc_deliverAll evs (mc_TorrentCreationTask (createTorrentParams ext req))) KEY_SOURCE
            = (if request_param req KEY_COMMENT = [] then None
               else Some (JsonString (request_param req KEY_COMMENT)))"
    unfolding taskJson_source s by (rule refl)
  have "createAction ext g n req ctl = Some (Inr (ident, n', ctl')) \<longrightarrow>
        mc_m_tasks ctl' ident = Some (mc_TorrentCreationTask (createTorrentParams ext req))"
    by (simp add: createAction_Some(2))
  with s j source_createTorrentParams [of ext req] createTorrentParams_ignores_source [of ext req v]
  show ?thesis by blast
qed

theorem source_is_taken_from_comment_witness:
  "source (createTorrentParams
      \<lparr>QBT_USES_LIBTORRENT2 = False, parseBool = (\<lambda>s. None), parseInt = (\<lambda>s. None),
       toLower = (\<lambda>s. s), toPath = (\<lambda>s. s),
       requireParams = (\<lambda>req ks. list_all (\<lambda>k. req k \<noteq> None) ks),
       defaultParams = movie_params\<rparr>
      [''inputPath'' \<mapsto> ''/data/movie.mkv'', ''comment'' \<mapsto> ''my notes'', ''source'' \<mapsto> ''tracker-x''])
     = ''my notes''
   \<and> (\<exists>ctl'. createAction
      \<lparr>QBT_USES_LIBTORRENT2 = False, parseBool = (\<lambda>s. None), parseInt = (\<lambda>s. None),
       toLower = (\<lambda>s. s), toPath = (\<lambda>s. s),
       requireParams = (\<lambda>req ks. list_all (\<lambda>k. req k \<noteq> None) ks),
       defaultParams = movie_params\<rparr>
      (\<lambda>k. ''a'') 0
      [''inputPath'' \<mapsto> ''/data/movie.mkv'', ''comment'' \<mapsto> ''my notes'', ''source'' \<mapsto> ''tracker-x'']
      \<lparr>mc_m_tasks = Map.empty, mc_effects = []\<rparr> = Some (Inr (''a'', 1, ctl')))
   \<and> statusAction_taskJson
      \<lparr>QBT_USES_LIBTORRENT2 = False, parseBool = (\<lambda>s. None), parseInt = (\<lambda>s. None),
       toLower = (\<lambda>s. s), toPath = (\<lambda>s. s),
       requireParams = (\<lambda>req ks. list_all (\<lambda>k. req k \<noteq> None) ks),
       defaultParams = movie_params\<rparr>
      ''a''
      (mc_deliverAll [UpdateProgress 5] (mc_TorrentCreationTask (createTorrentParams
        \<lparr>QBT_USES_LIBTORRENT2 = False, parseBool = (\<lambda>s. None), parseInt = (\<lambda>s. None),
         toLower = (\<lambda>s. s), toPath = (\<lambda>s. s),
         requireParams = (\<lambda>req ks. list_all (\<lambda>k. req k \<noteq> None) ks),
         defaultParams = movie_params\<rparr>
        [''inputPath'' \<mapsto> ''/data/movie.mkv'', ''comment'' \<mapsto> ''my notes'', ''source'' \<mapsto> ''tracker-x''])))
      KEY_SOURCE
     = Some (JsonString ''my notes'')"
proof -
  let ?ext = "\<lparr>QBT_USES_LIBTORRENT2 = False, parseBool = (\<lambda>s. None), parseInt = (\<lambda>s. None),
       toLower = (\<lambda>s. s), toPath = (\<lambda>s. s),
       requireParams = (\<lambda>req ks. list_all (\<lambda>k. req k \<noteq> None) ks),
       defaultParams = movie_params\<rparr>"
  let ?req = "[''inputPath'' \<mapsto> ''/data/movie.mkv'', ''comment'' \<mapsto> ''my notes'', ''source'' \<mapsto> ''tracker-x'']"
  let ?ctl = "\<lparr>mc_m_tasks = Map.empty, mc_effects = []\<rparr>"
  let ?ctl' = "?ctl\<lparr>mc_m_tasks := (mc_m_tasks ?ctl)(''a'' \<mapsto> mc_TorrentCreationTask (createTorrentParams ?ext ?req)),
           mc_effects := mc_effects ?ctl @ [mc_StartCreator (createTorrentParams ?ext ?req)]\<rparr>"
  have c: "request_param ?req KEY_COMMENT = ''my notes''"
    by (simp add: request_param_def KEY_COMMENT_def)
  have "requireParams ?ext ?req [''inputPath'']" by simp
  moreover have "\<forall>j<0::nat. mc_m_tasks ?ctl ((\<lambda>k::nat. ''a'') (0 + j)) \<noteq> None" by simp
  moreover have "mc_m_tasks ?ctl ((\<lambda>k::nat. ''a'') (0 + 0)) = None" by simp
  ultimately have "createAction ?ext (\<lambda>k. ''a'') 0 ?req ?ctl
      = Some (Inr ((\<lambda>k. ''a'') (0 + 0), Suc (0 + 0), ?ctl'))"
    by (rule createAction_first_fresh)
  then have a: "createAction ?ext (\<lambda>k. ''a'') 0 ?req ?ctl = Some (Inr (''a'', 1, ?ctl'))" by simp
  note T = source_is_taken_from_comment [where ext = ?ext and req = ?req and g = "\<lambda>k. ''a''"
      and n = 0 and ctl = ?ctl and ident = "''a''" and n' = 1 and ctl' = ?ctl'
      and evs = "[UpdateProgress 5]"]
  from T [THEN conjunct1] c
  have 1: "source (createTorrentParams ?ext ?req) = ''my notes''" by simp
  from T [THEN conjunct2, THEN conjunct2, THEN mp, OF a, THEN conjunct2, THEN conjunct2] c
  have 3: "statusAction_taskJson ?ext ''a''
      (mc_deliverAll [UpdateProgress 5] (mc_TorrentCreationTask (createTorrentParams ?ext ?req))) KEY_SOURCE
     = Some (JsonString ''my notes'')" by simp
  from a have 2: "\<exists>ctl'. createAction ?ext (\<lambda>k. ''a'') 0 ?req ?ctl = Some (Inr (''a'', 1, ctl'))"
    by (rule exI)
  from 1 2 3 show ?thesis by (intro conjI)
qed

end
